theory Spec2Isabelle
  imports Main
begin

section \<open>Strings and dictionaries\<close>

text \<open>
  Python and JavaScript strings are modelled as \<open>string\<close>; module and variable names are
  ASCII.  \<open>startswith\<close> is Python's \<open>str.startswith\<close>, \<open>str_includes\<close> is JavaScript's
  \<open>String.prototype.includes\<close> (and Python's substring test \<open>in\<close>), \<open>lower\<close> is
  \<open>str.lower\<close> on the ASCII range.
\<close>

fun startswith :: "string \<Rightarrow> string \<Rightarrow> bool" where
  "startswith s [] = True"
| "startswith [] (p # ps) = False"
| "startswith (c # cs) (p # ps) = (c = p \<and> startswith cs ps)"

fun str_includes :: "string \<Rightarrow> string \<Rightarrow> bool" where
  "str_includes [] needle = (needle = [])"
| "str_includes (c # cs) needle = (startswith (c # cs) needle \<or> str_includes cs needle)"

definition lower_char :: "char \<Rightarrow> char" where
  "lower_char c =
     (case map_of (zip ''ABCDEFGHIJKLMNOPQRSTUVWXYZ'' ''abcdefghijklmnopqrstuvwxyz'') c of
        Some l \<Rightarrow> l
      | None \<Rightarrow> c)"

definition lower :: "string \<Rightarrow> string" where
  "lower s = map lower_char s"

text \<open>Decimal rendering of integers, as \<open>str(n)\<close> and the f-string \<open>f"id{id}"\<close> produce it.\<close>

definition digit_char :: "nat \<Rightarrow> char" where
  "digit_char d = ''0123456789'' ! d"

fun str_nat :: "nat \<Rightarrow> string" where
  "str_nat n = (if n < 10 then [digit_char n] else str_nat (n div 10) @ [digit_char (n mod 10)])"

declare str_nat.simps [simp del]

definition str_int :: "int \<Rightarrow> string" where
  "str_int i = (if i < 0 then CHR ''-'' # str_nat (nat (- i)) else str_nat (nat i))"

text \<open>
  A Python \<open>dict\<close> (and a JavaScript object used as a record of named properties) is an
  association list in insertion order with unique keys: assigning to an existing key
  replaces its value in place, assigning to a new key appends.
\<close>

fun dict_set :: "('k \<times> 'v) list \<Rightarrow> 'k \<Rightarrow> 'v \<Rightarrow> ('k \<times> 'v) list" where
  "dict_set [] k v = [(k, v)]"
| "dict_set ((k', v') # rest) k v =
     (if k' = k then (k, v) # rest else (k', v') # dict_set rest k v)"

definition dict_keys :: "('k \<times> 'v) list \<Rightarrow> 'k list" where
  "dict_keys d = map fst d"

section \<open>Import guard (\<open>custom_import\<close>)\<close>

text \<open>
  Exceptions are classified by the \<open>except\<close> clause of \<open>run_with_trace\<close> that catches
  them: \<open>ImportError\<close> (with its subclasses), \<open>KeyError\<close>, any other subclass of
  \<open>Exception\<close>, and exceptions that derive from \<open>BaseException\<close> only (\<open>SystemExit\<close>,
  \<open>KeyboardInterrupt\<close>), which no clause catches.  \<open>PyExc c s\<close> is an exception of class
  \<open>c\<close> on which \<open>str(e)\<close> returns \<open>s\<close>; \<open>PyExcNoStr c e'\<close> is an exception of class \<open>c\<close> on
  which \<open>str(e)\<close> raises \<open>e'\<close> (its \<open>__str__\<close> raises, or returns something that is not a
  string, on which \<open>str\<close> raises a \<open>TypeError\<close>).
\<close>

datatype exc_class = ImportErrorCls | KeyErrorCls | OtherExceptionCls | BaseOnlyCls

datatype pyexc = PyExc exc_class string | PyExcNoStr exc_class pyexc

definition unsupported_modules :: "string list" where
  "unsupported_modules =
     [''numpy'', ''np'', ''pandas'', ''pd'', ''matplotlib'', ''plt'', ''scipy'', ''sk'',
      ''sklearn'', ''requests'']"

text \<open>The modules that the message raised for \<open>requests\<close> enumerates as importable.\<close>

definition allowed_modules :: "string list" where
  "allowed_modules =
     [''**future**'', ''abc'', ''array'', ''bisect'', ''calendar'', ''cmath'', ''collections'',
      ''copy'', ''datetime'', ''decimal'', ''doctest'', ''fractions'', ''functools'',
      ''hashlib'', ''heapq'', ''io'', ''itertools'', ''json'', ''locale'', ''math'',
      ''operator'', ''pickle'', ''pprint'', ''random'', ''re'', ''string'', ''types'',
      ''typing'', ''unittest'']"

fun join :: "string \<Rightarrow> string list \<Rightarrow> string" where
  "join sep [] = []"
| "join sep [x] = x"
| "join sep (x # y # ys) = x @ sep @ join sep (y # ys)"

definition requests_message :: string where
  "requests_message =
     ''requests not found or not supported - Only these modules can be imported: ''
       @ join '', '' allowed_modules"

definition unsupported_message :: "string \<Rightarrow> string" where
  "unsupported_message name =
     ''Module '' @ [CHR 0x27] @ name @ [CHR 0x27]
       @ '' is not supported in this environment. Please use standard Python libraries only.''"

text \<open>
  \<open>real_import\<close> is the host runtime's \<open>builtins.__import__\<close>, saved before the guard is
  installed; it is a parameter.  \<open>'m\<close> is the type of module objects.
\<close>

definition custom_import :: "(string \<Rightarrow> pyexc + 'm) \<Rightarrow> string \<Rightarrow> pyexc + 'm" where
  "custom_import real_import name =
     (if lower name \<in> set unsupported_modules then
        (if lower name = ''requests'' then Inl (PyExc ImportErrorCls requests_message)
         else Inl (PyExc ImportErrorCls (unsupported_message name)))
      else real_import name)"

section \<open>Values, descriptors and heap entries\<close>

text \<open>
  Live Python values, as far as \<open>process_value\<close> inspects them.  Compound values carry the
  object identity \<open>id(val)\<close>, so that one live object observed twice is the same term and
  two equal but separate objects differ in the identity only.
  \<^item> \<open>PModule n\<close>: an object with \<open>__file__\<close> and \<open>__name__ = n\<close>.
  \<^item> \<open>PBool\<close>: \<open>bool\<close> is a subclass of \<open>int\<close>, so booleans take the \<open>(int, float)\<close> branch.
  \<^item> \<open>PFloat s\<close>: a float, given by its \<open>str()\<close>.
  \<^item> \<open>PDict oid cls items\<close>: an instance of \<open>dict\<close> or of a subclass of it; \<open>cls\<close> is
    \<open>val.__class__.__name__\<close>.  \<open>collections.Counter\<close> is a subclass of \<open>dict\<close>, so a
    Counter instance is \<open>PDict oid ''Counter'' items\<close>.
  \<^item> \<open>PCallable n params\<close>: a callable with \<open>__name__ = n\<close>; \<open>params\<close> are the first
    \<open>co_argcount\<close> names of \<open>__code__.co_varnames\<close>, \<open>None\<close> when it has no \<open>__code__\<close>.
  \<^item> \<open>PObject oid cls it items pat\<close>: any other instance: its class name, whether it has
    both \<open>__iter__\<close> and \<open>__next__\<close>, what \<open>val.items()\<close> yields and its \<open>pattern\<close>
    attribute (the source reads the last two only for classes named \<open>Counter\<close> and
    \<open>Pattern\<close>).
  Self-referential values are not terms of this type.
\<close>

datatype pyval =
    PModule string
  | PInt int
  | PFloat string
  | PBool bool
  | PNone
  | PStr string
  | PTuple "pyval list"
  | PList nat "pyval list"
  | PDict nat string "(pyval \<times> pyval) list"
  | PCallable string "string list option"
  | PObject nat string bool "(pyval \<times> pyval) list" string

datatype value_desc = Primitive string | Reference string

text \<open>
  A heap entry is the dictionary stored under a heap id: its \<open>type\<close>-specific fields and the
  optional \<open>annotation\<close>, which post-processing may set on an entry of any type.
\<close>

datatype heap_body =
    ListBody string "value_desc list"
  | DictBody "(string \<times> string) list"
  | FunctionBody string string
  | CounterBody "(string \<times> string) list" nat

record heap_entry =
  body :: heap_body
  annotation :: "string option"

fun body_type :: "heap_body \<Rightarrow> string" where
  "body_type (ListBody ot es) = ''list''"
| "body_type (DictBody d) = ''dict''"
| "body_type (FunctionBody n v) = ''function''"
| "body_type (CounterBody d oid) = ''Counter''"

definition entry_type :: "heap_entry \<Rightarrow> string" where
  "entry_type e = body_type (body e)"

fun body_object_id :: "heap_body \<Rightarrow> nat option" where
  "body_object_id (CounterBody d oid) = Some oid"
| "body_object_id b = None"

type_synonym heap_t = "(string \<times> heap_entry) list"

text \<open>
  \<open>capture_frame\<close> stores \<open>self.heap\<close> itself in the snapshot, not a copy: every captured
  snapshot refers to the one heap dictionary of the visualizer (\<open>SharedHeap\<close>).  The error
  snapshot carries a dictionary of its own (\<open>OwnHeap\<close>).
\<close>

datatype heap_ref = SharedHeap | OwnHeap heap_t

record frame_info =
  name :: string
  variables :: "(string \<times> value_desc) list"

record 'h snapshot =
  frame :: frame_info
  heap :: 'h
  output_text :: string
  currentLine :: int

section \<open>Interpreter state of the tracing code\<close>

text \<open>
  The module-level state of the Python side: \<open>visualizer.heap\<close>,
  \<open>visualizer.next_heap_id\<close>, \<open>capturer.value\<close>, the list \<open>execution_steps\<close>, and whether
  \<open>sys.stdout\<close> is the capturer (it is after initialisation; the \<open>finally\<close> clause of
  \<open>run_with_trace\<close> sets \<open>sys.stdout\<close> back to \<open>sys.__stdout__\<close>).
\<close>

record pystate =
  visualizer_heap :: heap_t
  next_heap_id :: nat
  capturer_value :: string
  execution_steps :: "heap_ref snapshot list"
  stdout_is_capturer :: bool

definition get_heap_id :: "pystate \<Rightarrow> string \<times> pystate" where
  "get_heap_id st =
     (''id'' @ str_nat (next_heap_id st), st\<lparr>next_heap_id := next_heap_id st + 1\<rparr>)"

text \<open>
  \<open>str(val)\<close>: decimal for integers, \<open>True\<close>/\<open>False\<close>, \<open>None\<close>, the string itself; for every
  other value the host's \<open>str\<close>, a parameter \<open>hs\<close>.
\<close>

fun py_str :: "(pyval \<Rightarrow> string) \<Rightarrow> pyval \<Rightarrow> string" where
  "py_str hs (PInt i) = str_int i"
| "py_str hs (PFloat s) = s"
| "py_str hs (PBool b) = (if b then ''True'' else ''False'')"
| "py_str hs PNone = ''None''"
| "py_str hs (PStr s) = s"
| "py_str hs v = hs v"

text \<open>
  \<open>_get_variable_name\<close>: the first variable of a recorded snapshot that refers to a heap
  entry of the visualizer's heap whose \<open>_object_id\<close> is the given identity.
\<close>

definition refers_to_object :: "heap_t \<Rightarrow> nat \<Rightarrow> string \<times> value_desc \<Rightarrow> bool" where
  "refers_to_object h oid nv =
     (case snd nv of
        Reference i \<Rightarrow>
          i \<noteq> [] \<and>
          (case map_of h i of Some e \<Rightarrow> body_object_id (body e) = Some oid | None \<Rightarrow> False)
      | Primitive s \<Rightarrow> False)"

definition get_variable_name :: "pystate \<Rightarrow> nat \<Rightarrow> string option" where
  "get_variable_name st oid =
     map_option fst
       (find (refers_to_object (visualizer_heap st) oid)
          (concat (map (\<lambda>s. variables (frame s)) (execution_steps st))))"

text \<open>
  The value stored for one item of a \<open>dict\<close>: for an \<open>int\<close>, \<open>float\<close>, \<open>bool\<close> or \<open>str\<close> the
  source takes \<open>process_value(v)["value"]\<close>, which for these is the string of the primitive
  branches and touches no state; for anything else \<open>str(v)\<close>.
\<close>

fun dict_item_value :: "(pyval \<Rightarrow> string) \<Rightarrow> pyval \<Rightarrow> string" where
  "dict_item_value hs (PInt i) = str_int i"
| "dict_item_value hs (PFloat s) = s"
| "dict_item_value hs (PBool b) = (if b then ''True'' else ''False'')"
| "dict_item_value hs (PStr s) = s"
| "dict_item_value hs v = py_str hs v"

definition dict_items_value :: "(pyval \<Rightarrow> string) \<Rightarrow> (pyval \<times> pyval) list \<Rightarrow> (string \<times> string) list" where
  "dict_items_value hs items =
     fold (\<lambda>(k, v) d. dict_set d (py_str hs k) (dict_item_value hs v)) items []"

definition counter_items_value :: "(pyval \<Rightarrow> string) \<Rightarrow> (pyval \<times> pyval) list \<Rightarrow> (string \<times> string) list" where
  "counter_items_value hs items =
     fold (\<lambda>(k, v) d. dict_set d (py_str hs k) (py_str hs v)) items []"

definition heap_store :: "string \<Rightarrow> heap_entry \<Rightarrow> pystate \<Rightarrow> pystate" where
  "heap_store heap_id e st = st\<lparr>visualizer_heap := dict_set (visualizer_heap st) heap_id e\<rparr>"

definition signature :: "string \<Rightarrow> string list option \<Rightarrow> string" where
  "signature n params =
     (case params of Some ps \<Rightarrow> n @ ''('' @ join '', '' ps @ '')'' | None \<Rightarrow> n)"

definition counter_label :: "string option \<Rightarrow> string" where
  "counter_label var_name =
     (case var_name of
        Some n \<Rightarrow> (if n \<noteq> [] then ''Counter for '' @ n else ''Counter object'')
      | None \<Rightarrow> ''Counter object'')"

text \<open>
  \<open>VisualizerState.process_value\<close>.  The branches are tried in the order of the source:
  module, \<open>(int, float)\<close>, \<open>bool\<close>/\<open>None\<close>, \<open>str\<close>, \<open>tuple\<close>, \<open>list\<close>, \<open>dict\<close>, callable, class
  named \<open>Counter\<close>, iterator, class named \<open>Pattern\<close>, default.  A heap id is taken before
  the elements are processed; the entry is stored after them.
\<close>

fun process_value :: "(pyval \<Rightarrow> string) \<Rightarrow> pyval \<Rightarrow> pystate \<Rightarrow> value_desc \<times> pystate"
  and process_values :: "(pyval \<Rightarrow> string) \<Rightarrow> pyval list \<Rightarrow> pystate \<Rightarrow> value_desc list \<times> pystate"
where
  "process_value hs (PModule n) st =
     (Primitive (''<module '' @ [CHR 0x27] @ n @ [CHR 0x27] @ ''>''), st)"
| "process_value hs (PInt i) st = (Primitive (py_str hs (PInt i)), st)"
| "process_value hs (PFloat s) st = (Primitive (py_str hs (PFloat s)), st)"
| "process_value hs (PBool b) st = (Primitive (py_str hs (PBool b)), st)"
| "process_value hs PNone st = (Primitive ''None'', st)"
| "process_value hs (PStr s) st = (Primitive s, st)"
| "process_value hs (PTuple xs) st =
     (let (heap_id, st1) = get_heap_id st;
          (elements, st2) = process_values hs xs st1
      in (Reference heap_id,
          heap_store heap_id \<lparr>body = ListBody ''tuple'' elements, annotation = None\<rparr> st2))"
| "process_value hs (PList oid xs) st =
     (let (heap_id, st1) = get_heap_id st;
          (elements, st2) = process_values hs xs st1
      in (Reference heap_id,
          heap_store heap_id \<lparr>body = ListBody ''list'' elements, annotation = None\<rparr> st2))"
| "process_value hs (PDict oid cls items) st =
     (let (heap_id, st1) = get_heap_id st
      in (Reference heap_id,
          heap_store heap_id
            \<lparr>body = DictBody (dict_items_value hs items), annotation = None\<rparr> st1))"
| "process_value hs (PCallable n params) st =
     (let (heap_id, st1) = get_heap_id st
      in (Reference heap_id,
          heap_store heap_id
            \<lparr>body = FunctionBody n (signature n params), annotation = None\<rparr> st1))"
| "process_value hs (PObject oid cls it items pat) st =
     (if cls = ''Counter'' then
        (let (heap_id, st1) = get_heap_id st;
             label = counter_label (get_variable_name st1 oid)
         in (Reference heap_id,
             heap_store heap_id
               \<lparr>body = CounterBody (counter_items_value hs items) oid,
                annotation = Some label\<rparr> st1))
      else if it then (Primitive ''iterator'', st)
      else if cls = ''Pattern'' then (Primitive (''regex: '' @ pat), st)
      else (Primitive (py_str hs (PObject oid cls it items pat)), st))"
| "process_values hs [] st = ([], st)"
| "process_values hs (x # xs) st =
     (let (d, st1) = process_value hs x st;
          (ds, st2) = process_values hs xs st1
      in (d # ds, st2))"

section \<open>Frames and \<open>capture_frame\<close>\<close>

text \<open>
  A Python frame object: \<open>f_code.co_name\<close>, \<open>f_lineno\<close>, and the items of \<open>f_globals\<close> and
  \<open>f_locals\<close> in dictionary order.  In a module frame \<open>f_locals\<close> is \<open>f_globals\<close>.
\<close>

record pyframe =
  co_name :: string
  f_lineno :: int
  f_globals :: "(string \<times> pyval) list"
  f_locals :: "(string \<times> pyval) list"

definition global_var_shown :: "string \<Rightarrow> bool" where
  "global_var_shown n =
     (\<not> (startswith n ''__''
          \<or> n \<in> set [''sys'', ''json'', ''builtins'', ''custom_import'', ''visualization'',
                       ''visualizer'']
          \<or> startswith n ''_'')
      \<and> (n \<in> set [''Counter'', ''winner'', ''input'']
           \<or> \<not> (startswith n ''get_'' \<or> startswith n ''set_'' \<or> startswith n ''run_''
                   \<or> startswith n ''trace_'')))"

definition local_var_shown :: "string \<Rightarrow> bool" where
  "local_var_shown n = (\<not> (startswith n ''__'' \<or> n \<in> set [''self'', ''cls'']))"

fun capture_vars ::
  "(pyval \<Rightarrow> string) \<Rightarrow> (string \<Rightarrow> bool) \<Rightarrow> (string \<times> pyval) list \<Rightarrow>
   (string \<times> value_desc) list \<Rightarrow> pystate \<Rightarrow> (string \<times> value_desc) list \<times> pystate"
where
  "capture_vars hs shown [] vars st = (vars, st)"
| "capture_vars hs shown ((n, v) # rest) vars st =
     (if shown n then
        (let (d, st1) = process_value hs v st
         in capture_vars hs shown rest (dict_set vars n d) st1)
      else capture_vars hs shown rest vars st)"

definition capture_frame ::
  "(pyval \<Rightarrow> string) \<Rightarrow> pyframe \<Rightarrow> pystate \<Rightarrow> heap_ref snapshot \<times> pystate"
where
  "capture_frame hs fr st =
     (let (vars, st1) =
            (if co_name fr = ''<module>''
             then capture_vars hs global_var_shown (f_globals fr) [] st
             else capture_vars hs local_var_shown (f_locals fr) [] st)
      in (\<lparr>frame = \<lparr>name = (if co_name fr \<noteq> ''<module>'' then co_name fr else ''Global frame''),
                     variables = vars\<rparr>,
           heap = SharedHeap,
           output_text = capturer_value st,
           currentLine = f_lineno fr\<rparr>, st1))"

section \<open>Output capture and the trace function\<close>

text \<open>
  \<open>sys.stdout.write(text)\<close>: while \<open>sys.stdout\<close> is the capturer, \<open>OutputCapturer.write\<close>
  appends to \<open>capturer.value\<close> (and mirrors the text to the console, which nothing reads
  back and which is left out); otherwise the text goes to the console only.
\<close>

definition stdout_write :: "string \<Rightarrow> pystate \<Rightarrow> pystate" where
  "stdout_write text st =
     (if stdout_is_capturer st then st\<lparr>capturer_value := capturer_value st @ text\<rparr> else st)"

definition get_output :: "pystate \<Rightarrow> string" where
  "get_output st = capturer_value st"

text \<open>
  \<open>frame.f_globals.get('__name__', '')\<close>.  A \<open>__name__\<close> that is bound to something other
  than a string (on which \<open>.startswith\<close> would raise) is read as the default.
\<close>

definition globals_name :: "pyframe \<Rightarrow> string" where
  "globals_name fr = (case map_of (f_globals fr) ''__name__'' of Some (PStr s) \<Rightarrow> s | _ \<Rightarrow> [])"

definition system_frame :: "pyframe \<Rightarrow> bool" where
  "system_frame fr =
     (co_name fr \<in> set [''custom_import'', ''__import__'']
      \<or> ''custom_import'' \<in> set (dict_keys (f_locals fr))
      \<or> (startswith (globals_name fr) ''re'' \<or> startswith (globals_name fr) ''collections''
          \<or> startswith (globals_name fr) ''importlib''))"

text \<open>
  \<open>trace_execution(frame, event, arg)\<close>; its return value is always the function itself,
  so only the effect on the state is modelled.
\<close>

definition trace_execution :: "(pyval \<Rightarrow> string) \<Rightarrow> pyframe \<Rightarrow> string \<Rightarrow> pystate \<Rightarrow> pystate" where
  "trace_execution hs fr event st =
     (if system_frame fr then st
      else if event = ''line'' \<and> globals_name fr = ''__main__'' then
        (if length (execution_steps st) > 0
            \<and> currentLine (last (execution_steps st)) = f_lineno fr
            \<and> co_name fr = ''__main__''
         then st
         else (let (state, st1) = capture_frame hs fr st
               in st1\<lparr>execution_steps := execution_steps st1 @ [state]\<rparr>))
      else st)"

text \<open>
  While \<open>sys.settrace(trace_execution)\<close> is in force the interpreter reports the events of
  every Python frame to \<open>trace_execution\<close>; a list of such reports is replayed by
  \<open>report\<close>.
\<close>

definition report :: "(pyval \<Rightarrow> string) \<Rightarrow> (pyframe \<times> string) list \<Rightarrow> pystate \<Rightarrow> pystate" where
  "report hs evs st = fold (\<lambda>(fr, ev). trace_execution hs fr ev) evs st"

text \<open>
  The \<open>except\<close> clauses of \<open>run_with_trace\<close> run before \<open>sys.settrace(None)\<close>, so the
  interpreter still reports events while they run: those of a \<open>__str__\<close> written in Python
  that \<open>str(e)\<close> calls, the lines of \<open>create_error_state\<close>, and those of
  \<open>OutputCapturer.write\<close>.  Which events is the interpreter's business: they are
  parameters, grouped by where they fall between the effects of the clause.  For an inner
  clause, \<open>create_error_state(kind, str(e))\<close>: while \<open>str(e)\<close> runs; from the call of
  \<open>create_error_state\<close> until \<open>print\<close> writes the message; between that and writing the
  line end; between that and the \<open>append\<close>.  (The \<open>return\<close> event of \<open>create_error_state\<close>
  follows the \<open>append\<close>; \<open>trace_execution\<close> does nothing on it.)  For the outer clause,
  \<open>print(f"Error: {str(e)}")\<close>: while \<open>str(e)\<close> runs; until \<open>print\<close> writes the message;
  between that and writing the line end; after that, until \<open>sys.settrace(None)\<close>.
\<close>

record handler_trace =
  during_str :: "(pyframe \<times> string) list"
  before_print :: "(pyframe \<times> string) list"
  between_writes :: "(pyframe \<times> string) list"
  after_print :: "(pyframe \<times> string) list"
  outer_during_str :: "(pyframe \<times> string) list"
  outer_before_print :: "(pyframe \<times> string) list"
  outer_between_writes :: "(pyframe \<times> string) list"
  outer_after_print :: "(pyframe \<times> string) list"

definition error_state :: "string \<Rightarrow> heap_ref snapshot" where
  "error_state full_message =
     \<lparr>frame = \<lparr>name = ''Global frame'', variables = []\<rparr>,
      heap = OwnHeap [],
      output_text = full_message,
      currentLine = 1\<rparr>"

definition create_error_state ::
  "(pyval \<Rightarrow> string) \<Rightarrow> handler_trace \<Rightarrow> string \<Rightarrow> string \<Rightarrow> pystate \<Rightarrow> pystate"
where
  "create_error_state hs tr error_type error_msg st =
     (let full_message = error_type @ '': '' @ error_msg;
          st1 = report hs (before_print tr) st;
          st2 = stdout_write full_message st1;
          st3 = report hs (between_writes tr) st2;
          st4 = stdout_write [CHR 0x0A] st3;
          st5 = report hs (after_print tr) st4
      in st5\<lparr>execution_steps := execution_steps st5 @ [error_state full_message]\<rparr>)"

definition system_names :: "string list" where
  "system_names =
     [''custom_import'', ''real_import'', ''unsupported_modules'', ''builtins'', ''json'',
      ''sys'', ''to_js'', ''visualizer'', ''execution_steps'', ''trace_execution'',
      ''run_with_trace'', ''create_error_state'', ''filter_system_variables'']"

definition filter_system_variables :: "(string \<times> 'v) list \<Rightarrow> (string \<times> 'v) list" where
  "filter_system_variables variables_dict =
     filter (\<lambda>(n, v). \<not> startswith n ''__'' \<and> n \<notin> set system_names) variables_dict"

section \<open>Running user code\<close>

text \<open>
  The host interpreter executes the user's program; the model sees it through what it
  does to the tracing code while \<open>exec(code, namespace)\<close> runs:
  \<^item> \<open>Trace fr ev\<close>: it reports event \<open>ev\<close> of frame \<open>fr\<close> to \<open>trace_execution\<close>;
  \<^item> \<open>StdoutWrite t\<close>: the program writes \<open>t\<close> to \<open>sys.stdout\<close> (as \<open>print\<close> does, once for
    the text and once for the line end);
  \<^item> \<open>ImportStmt n\<close>: an import statement outside any \<open>try\<close> block calls
    \<open>builtins.__import__\<close>, which is \<open>custom_import\<close>;
  \<^item> \<open>Raise e\<close>: the program raises \<open>e\<close> and does not handle it.
  An exception ends \<open>exec\<close>: the remaining actions do not happen.
\<close>

datatype action =
    Trace pyframe string
  | StdoutWrite string
  | ImportStmt string
  | Raise pyexc

fun exec_actions ::
  "(pyval \<Rightarrow> string) \<Rightarrow> (string \<Rightarrow> pyexc + 'm) \<Rightarrow> action list \<Rightarrow> pystate \<Rightarrow> pyexc option \<times> pystate"
where
  "exec_actions hs ri [] st = (None, st)"
| "exec_actions hs ri (Trace fr ev # rest) st =
     exec_actions hs ri rest (trace_execution hs fr ev st)"
| "exec_actions hs ri (StdoutWrite t # rest) st = exec_actions hs ri rest (stdout_write t st)"
| "exec_actions hs ri (ImportStmt n # rest) st =
     (case custom_import ri n of
        Inl e \<Rightarrow> (Some e, st)
      | Inr m \<Rightarrow> exec_actions hs ri rest st)"
| "exec_actions hs ri (Raise e # rest) st = (Some e, st)"

text \<open>What an action adds to the program's output.\<close>

fun written :: "action \<Rightarrow> string" where
  "written (StdoutWrite t) = t"
| "written a = []"

text \<open>
  The inner \<open>try\<close> statement around \<open>exec\<close>, with its three \<open>except\<close> clauses.  Each clause
  evaluates \<open>str(e)\<close> and then calls \<open>create_error_state\<close>.  The statement ends normally
  (\<open>Inr\<close>) or with an exception (\<open>Inl\<close>, with the state reached): an exception that is not
  an \<open>Exception\<close> passes the clauses, and an exception that \<open>str(e)\<close> raises inside a clause
  leaves the statement, \<open>create_error_state\<close> not being called.
\<close>

fun handle_exception ::
  "(pyval \<Rightarrow> string) \<Rightarrow> handler_trace \<Rightarrow> pyexc option \<Rightarrow> pystate \<Rightarrow>
   (pyexc \<times> pystate) + pystate"
where
  "handle_exception hs tr None st = Inr st"
| "handle_exception hs tr (Some (PyExc ImportErrorCls msg)) st =
     Inr (create_error_state hs tr ''Error'' msg (report hs (during_str tr) st))"
| "handle_exception hs tr (Some (PyExc KeyErrorCls msg)) st =
     Inr (create_error_state hs tr ''KeyError'' msg (report hs (during_str tr) st))"
| "handle_exception hs tr (Some (PyExc OtherExceptionCls msg)) st =
     Inr (create_error_state hs tr ''Error'' msg (report hs (during_str tr) st))"
| "handle_exception hs tr (Some (PyExc BaseOnlyCls msg)) st = Inl (PyExc BaseOnlyCls msg, st)"
| "handle_exception hs tr (Some (PyExcNoStr ImportErrorCls e)) st =
     Inl (e, report hs (during_str tr) st)"
| "handle_exception hs tr (Some (PyExcNoStr KeyErrorCls e)) st =
     Inl (e, report hs (during_str tr) st)"
| "handle_exception hs tr (Some (PyExcNoStr OtherExceptionCls e)) st =
     Inl (e, report hs (during_str tr) st)"
| "handle_exception hs tr (Some (PyExcNoStr BaseOnlyCls e)) st =
     Inl (PyExcNoStr BaseOnlyCls e, st)"

text \<open>
  The outer \<open>except Exception as e\<close> clause of \<open>run_with_trace\<close>, which an exception
  reaches that left the inner \<open>try\<close> statement: \<open>print(f"Error: {str(e)}")\<close>,
  \<open>sys.settrace(None)\<close>, \<open>return to_js([])\<close>.  The trace function is still installed while
  \<open>print\<close> runs.  An exception that is not an \<open>Exception\<close> passes the clause and leaves
  \<open>run_with_trace\<close>; so does one that \<open>str(e)\<close> raises inside the clause.
\<close>

fun exc_class_of :: "pyexc \<Rightarrow> exc_class" where
  "exc_class_of (PyExc c msg) = c"
| "exc_class_of (PyExcNoStr c e) = c"

definition print_error :: "(pyval \<Rightarrow> string) \<Rightarrow> handler_trace \<Rightarrow> string \<Rightarrow> pystate \<Rightarrow> pystate" where
  "print_error hs tr msg st =
     (let st1 = report hs (outer_before_print tr) (report hs (outer_during_str tr) st);
          st2 = stdout_write (''Error: '' @ msg) st1;
          st3 = report hs (outer_between_writes tr) st2;
          st4 = stdout_write [CHR 0x0A] st3
      in report hs (outer_after_print tr) st4)"

definition outer_handler ::
  "(pyval \<Rightarrow> string) \<Rightarrow> handler_trace \<Rightarrow> pyexc \<Rightarrow> pystate \<Rightarrow>
   (pyexc + heap_t snapshot list) \<times> pystate"
where
  "outer_handler hs tr e st =
     (if exc_class_of e = BaseOnlyCls then (Inl e, st)
      else (case e of
              PyExc c msg \<Rightarrow> (Inr [], print_error hs tr msg st)
            | PyExcNoStr c e' \<Rightarrow> (Inl e', report hs (outer_during_str tr) st)))"

text \<open>
  Post-processing works on the snapshots in place.  A change to \<open>step["heap"]\<close> of a
  captured snapshot is a change to the visualizer's heap, which all captured snapshots
  share; \<open>for_each_step\<close> runs one loop over the steps, threading that shared heap.
\<close>

definition on_step_heap ::
  "(heap_t \<Rightarrow> heap_t) \<Rightarrow> heap_ref snapshot \<Rightarrow> heap_t \<Rightarrow> heap_ref snapshot \<times> heap_t"
where
  "on_step_heap f s shared =
     (case heap s of
        SharedHeap \<Rightarrow> (s, f shared)
      | OwnHeap h \<Rightarrow> (s\<lparr>heap := OwnHeap (f h)\<rparr>, shared))"

fun for_each_step ::
  "(heap_ref snapshot \<Rightarrow> heap_ref snapshot) \<Rightarrow> (heap_t \<Rightarrow> heap_t) \<Rightarrow>
   heap_ref snapshot list \<Rightarrow> heap_t \<Rightarrow> heap_ref snapshot list \<times> heap_t"
where
  "for_each_step g f [] shared = ([], shared)"
| "for_each_step g f (s # ss) shared =
     (let (s1, shared1) = on_step_heap f (g s) shared;
          (ss1, shared2) = for_each_step g f ss shared1
      in (s1 # ss1, shared2))"

definition strip_step_variables :: "'h snapshot \<Rightarrow> 'h snapshot" where
  "strip_step_variables s =
     (if variables (frame s) \<noteq> []
      then s\<lparr>frame := (frame s)\<lparr>variables := filter_system_variables (variables (frame s))\<rparr>\<rparr>
      else s)"

definition unwanted_entry :: "heap_entry \<Rightarrow> bool" where
  "unwanted_entry e =
     (case body e of
        DictBody d \<Rightarrow>
          d \<noteq> [] \<and> (''__name__'' \<in> set (dict_keys d) \<or> ''__builtins__'' \<in> set (dict_keys d))
      | _ \<Rightarrow> False)"

definition strip_heap :: "heap_t \<Rightarrow> heap_t" where
  "strip_heap h = filter (\<lambda>(obj_id, obj). \<not> unwanted_entry obj) h"

text \<open>
  The Counter enhancement tests \<open>"Counter" in str(obj.get("value"))\<close>; \<open>hsd\<close> is the host's
  \<open>str\<close> on a dictionary of strings.  List entries have no \<open>value\<close>.
\<close>

definition counter_like :: "((string \<times> string) list \<Rightarrow> string) \<Rightarrow> heap_entry \<Rightarrow> bool" where
  "counter_like hsd obj =
     (entry_type obj = ''Counter''
      \<or> (case body obj of
            DictBody d \<Rightarrow> d \<noteq> [] \<and> str_includes (hsd d) ''Counter''
          | FunctionBody n v \<Rightarrow> v \<noteq> [] \<and> str_includes v ''Counter''
          | CounterBody d oid \<Rightarrow> d \<noteq> [] \<and> str_includes (hsd d) ''Counter''
          | ListBody ot es \<Rightarrow> False))"

definition annotate_heap :: "((string \<times> string) list \<Rightarrow> string) \<Rightarrow> heap_t \<Rightarrow> heap_t" where
  "annotate_heap hsd h =
     map (\<lambda>(obj_id, obj).
            (obj_id, if counter_like hsd obj
                     then obj\<lparr>annotation := Some ''imported class Counter''\<rparr> else obj)) h"

text \<open>
  \<open>to_js\<close> converts the list of snapshot dictionaries to the objects the JavaScript side
  reads; a snapshot's heap is the content of the dictionary it refers to at that moment.
\<close>

definition to_js :: "heap_t \<Rightarrow> heap_ref snapshot \<Rightarrow> heap_t snapshot" where
  "to_js shared s =
     \<lparr>frame = frame s,
      heap = (case heap s of SharedHeap \<Rightarrow> shared | OwnHeap h \<Rightarrow> h),
      output_text = output_text s,
      currentLine = currentLine s\<rparr>"

text \<open>
  The part of \<open>run_with_trace\<close> after \<open>sys.settrace(None)\<close>, one definition for each of
  its five sections in the order of the source: stripping system variables and
  namespace dictionaries from every step; capturing a final state if no step was
  captured, where \<open>own_frame\<close> is what \<open>sys._getframe()\<close> returns (the frame of
  \<open>run_with_trace\<close> itself); the Counter annotation; writing the final output into every
  step; duplicating a single step.
\<close>

definition strip_steps :: "pystate \<Rightarrow> pystate" where
  "strip_steps st =
     (let (steps, h) =
            for_each_step strip_step_variables strip_heap (execution_steps st) (visualizer_heap st)
      in st\<lparr>execution_steps := steps, visualizer_heap := h\<rparr>)"

definition capture_final_state :: "(pyval \<Rightarrow> string) \<Rightarrow> pyframe \<Rightarrow> pystate \<Rightarrow> pystate" where
  "capture_final_state hs own_frame st =
     (if length (execution_steps st) = 0
      then (let (state, st1) = capture_frame hs own_frame st
            in st1\<lparr>execution_steps := execution_steps st1 @ [strip_step_variables state]\<rparr>)
      else st)"

definition annotate_counters :: "((string \<times> string) list \<Rightarrow> string) \<Rightarrow> pystate \<Rightarrow> pystate" where
  "annotate_counters hsd st =
     (let (steps, h) =
            for_each_step id (annotate_heap hsd) (execution_steps st) (visualizer_heap st)
      in st\<lparr>execution_steps := steps, visualizer_heap := h\<rparr>)"

definition backfill_output :: "pystate \<Rightarrow> pystate" where
  "backfill_output st =
     (let final_output = get_output st
      in st\<lparr>execution_steps :=
              map (\<lambda>step. step\<lparr>output_text := final_output\<rparr>) (execution_steps st)\<rparr>)"

definition duplicate_single_step :: "pystate \<Rightarrow> pystate" where
  "duplicate_single_step st =
     (if length (execution_steps st) = 1
      then st\<lparr>execution_steps := execution_steps st @ [execution_steps st ! 0]\<rparr>
      else st)"

definition post_process ::
  "(pyval \<Rightarrow> string) \<Rightarrow> ((string \<times> string) list \<Rightarrow> string) \<Rightarrow> pyframe \<Rightarrow> pystate \<Rightarrow> pystate"
where
  "post_process hs hsd own_frame st =
     duplicate_single_step
       (backfill_output
          (annotate_counters hsd
             (capture_final_state hs own_frame
                (strip_steps st))))"

definition run_with_trace ::
  "(pyval \<Rightarrow> string) \<Rightarrow> ((string \<times> string) list \<Rightarrow> string) \<Rightarrow> (string \<Rightarrow> pyexc + 'm) \<Rightarrow>
   pyframe \<Rightarrow> handler_trace \<Rightarrow> action list \<Rightarrow> pystate \<Rightarrow>
   (pyexc + heap_t snapshot list) \<times> pystate"
where
  "run_with_trace hs hsd ri own_frame tr code st =
     (let st0 = st\<lparr>visualizer_heap := [], next_heap_id := 1, capturer_value := [],
                   execution_steps := []\<rparr>;
          (exc, st1) = exec_actions hs ri code st0;
          (result, st4) =
            (case handle_exception hs tr exc st1 of
               Inl (e, st2) \<Rightarrow> outer_handler hs tr e st2
             | Inr st2 \<Rightarrow>
                 (let st3 = post_process hs hsd own_frame st2
                  in (Inr (map (to_js (visualizer_heap st3)) (execution_steps st3)), st3)))
      in (result, st4\<lparr>stdout_is_capturer := False\<rparr>))"

text \<open>The steps a call returned; none if it raised.\<close>

definition returned :: "(pyexc + 'a list) \<times> pystate \<Rightarrow> 'a list" where
  "returned r = (case fst r of Inr steps \<Rightarrow> steps | Inl e \<Rightarrow> [])"

text \<open>
  The phases of \<open>run_with_trace\<close> as functions of their own: the four resets at its start,
  what follows \<open>exec\<close> up to the \<open>return\<close>, and the \<open>finally\<close> clause.  \<open>run_with_trace\<close> is
  their composition (\<open>run_with_trace_code\<close> below), and concrete runs are evaluated that
  way.
\<close>

definition reset_state :: "pystate \<Rightarrow> pystate" where
  "reset_state st =
     st\<lparr>visualizer_heap := [], next_heap_id := 1, capturer_value := [], execution_steps := []\<rparr>"

definition steps_result :: "pystate \<Rightarrow> (pyexc + heap_t snapshot list) \<times> pystate" where
  "steps_result st = (Inr (map (to_js (visualizer_heap st)) (execution_steps st)), st)"

definition after_exec ::
  "(pyval \<Rightarrow> string) \<Rightarrow> ((string \<times> string) list \<Rightarrow> string) \<Rightarrow> pyframe \<Rightarrow>
   handler_trace \<Rightarrow> pyexc option \<times> pystate \<Rightarrow> (pyexc + heap_t snapshot list) \<times> pystate"
where
  "after_exec hs hsd own_frame tr r =
     (case handle_exception hs tr (fst r) (snd r) of
        Inl p \<Rightarrow> outer_handler hs tr (fst p) (snd p)
      | Inr st2 \<Rightarrow> steps_result (post_process hs hsd own_frame st2))"

definition restore_stdout :: "'a \<times> pystate \<Rightarrow> 'a \<times> pystate" where
  "restore_stdout r = (fst r, (snd r)\<lparr>stdout_is_capturer := False\<rparr>)"

section \<open>The execution-state store (\<open>usePythonStore\<close>)\<close>

text \<open>
  The JavaScript side reads a snapshot as an object with the properties \<open>frame\<close>, \<open>heap\<close>,
  \<open>output\<close> and \<open>currentLine\<close>.  A frame without a \<open>name\<close> (the initial state) has the empty
  name: the source reads the name only through \<open>name || 'Global frame'\<close> and
  \<open>name !== 'write'\<close>, which do not tell the two apart.
\<close>

record store =
  isInitialized :: bool
  isRunning :: bool
  error :: "string option"
  executionSteps :: "heap_t snapshot list"
  currentStepIndex :: int
  executionState :: "heap_t snapshot"

definition initial_execution_state :: "heap_t snapshot" where
  "initial_execution_state =
     \<lparr>frame = \<lparr>name = [], variables = []\<rparr>, heap = [], output_text = [], currentLine = 1\<rparr>"

definition initial_store :: store where
  "initial_store =
     \<lparr>isInitialized = False, isRunning = False, error = None, executionSteps = [],
      currentStepIndex = 0, executionState = initial_execution_state\<rparr>"

text \<open>
  \<open>setExecutionState\<close> merges the properties of its argument over the current state; every
  caller passes all four properties, so the merge is a replacement.
\<close>

definition setExecutionState :: "heap_t snapshot \<Rightarrow> store \<Rightarrow> store" where
  "setExecutionState state prev = prev\<lparr>executionState := state\<rparr>"

definition setExecutionSteps :: "heap_t snapshot list \<Rightarrow> store \<Rightarrow> store" where
  "setExecutionSteps steps prev = prev\<lparr>executionSteps := steps\<rparr>"

definition setError :: "string option \<Rightarrow> store \<Rightarrow> store" where
  "setError e prev = prev\<lparr>error := e\<rparr>"

text \<open>\<open>x || ''\<close> on a string.\<close>

definition or_empty :: "string \<Rightarrow> string" where
  "or_empty x = (if x \<noteq> [] then x else [])"

definition setCurrentStepIndex :: "int \<Rightarrow> store \<Rightarrow> store" where
  "setCurrentStepIndex index prev =
     (if index \<ge> 0 \<and> index < int (length (executionSteps prev)) then
        (let currentStep = executionSteps prev ! nat index;
             lastStep = executionSteps prev ! (length (executionSteps prev) - 1)
         in prev\<lparr>currentStepIndex := index,
                 executionState := currentStep\<lparr>output_text := or_empty (output_text lastStep)\<rparr>\<rparr>)
      else prev)"

section \<open>Client-side processing of the returned steps\<close>

definition has_variable :: "'h snapshot \<Rightarrow> string \<Rightarrow> bool" where
  "has_variable step n = (n \<in> set (dict_keys (variables (frame step))))"

definition relevant_step :: "'h snapshot \<Rightarrow> bool" where
  "relevant_step step =
     (\<not> has_variable step ''_pyodide_core''
      \<and> \<not> has_variable step ''OutputCapturer''
      \<and> \<not> has_variable step ''capturer''
      \<and> \<not> has_variable step ''trace_execution''
      \<and> \<not> has_variable step ''run_with_trace''
      \<and> name (frame step) \<noteq> ''write'')"

text \<open>
  \<open>formatListElements\<close> rewrites the value of every primitive element of every list entry
  to \<open>String(value)\<close>; the values are strings already.
\<close>

definition format_entry :: "heap_entry \<Rightarrow> heap_entry" where
  "format_entry obj =
     (case body obj of
        ListBody ot es \<Rightarrow>
          obj\<lparr>body := ListBody ot
                 (map (\<lambda>element. case element of Primitive v \<Rightarrow> Primitive v
                                                | Reference i \<Rightarrow> Reference i) es)\<rparr>
      | _ \<Rightarrow> obj)"

definition formatListElements :: "heap_t snapshot list \<Rightarrow> heap_t snapshot list" where
  "formatListElements steps =
     map (\<lambda>step. step\<lparr>heap := map (\<lambda>(heapId, obj). (heapId, format_entry obj)) (heap step)\<rparr>) steps"

definition processExecutionSteps :: "heap_t snapshot list \<Rightarrow> store \<Rightarrow> store" where
  "processExecutionSteps steps st =
     (let relevantSteps = filter relevant_step steps
      in if length relevantSteps > 0 then
           (let formatted = formatListElements relevantSteps
            in setExecutionState
                 ((formatted ! 0)\<lparr>output_text := or_empty (output_text (last steps))\<rparr>)
                 (setExecutionSteps formatted st))
         else st)"

section \<open>Rendering (\<open>PythonTutorViz\<close>)\<close>

text \<open>
  What is appended to the SVG, in order: one primitive per call of \<open>createText\<close>,
  \<open>createRect\<close>, \<open>createLine\<close>, \<open>drawConnector\<close> (with its \<open>isFrame\<close> and \<open>level\<close>
  arguments) and \<open>createArrow\<close>.  Coordinates and styling are floating-point attributes
  that no branch depends on; they are left out.  Each primitive is paired with the
  nesting depth of the object it belongs to: 0 for frames and for objects referenced from
  a frame, and the \<open>level\<close> argument for what \<open>drawList\<close> draws.
\<close>

datatype prim = Text string | Rect | Line | Connector bool nat | Marker

type_synonym drawing = "(nat \<times> prim) list"

definition dict_content :: "(string \<times> string) list \<Rightarrow> string" where
  "dict_content entries =
     join '', '' (map (\<lambda>(k, v). [CHR 0x27] @ k @ [CHR 0x27] @ '': '' @ [CHR 0x27] @ v @ [CHR 0x27])
                    entries)"

definition drawDict :: "(string \<times> string) list \<Rightarrow> bool \<Rightarrow> prim list" where
  "drawDict data isCounter =
     (let labelText = (if isCounter then ''Counter instance'' else ''dict'');
          fullString = (if isCounter then ''Counter({'' @ dict_content data @ ''})''
                        else ''{'' @ dict_content data @ ''}'')
      in [Text labelText, Rect, Text fullString])"

definition drawFunction :: "string \<Rightarrow> prim list" where
  "drawFunction valueText = [Rect, Text valueText, Rect]"

definition ref_indicator :: "string \<Rightarrow> string" where
  "ref_indicator t =
     (if t = ''list'' then ''[]'' else if t = ''dict'' then ''{}''
      else if t = ''function'' then ''fn'' else ''?'')"

text \<open>
  \<open>drawList\<close>, \<open>renderListElement\<close> and \<open>renderReferenceElement\<close> call each other; the
  arguments kept are the heap, the element or list at hand, the index and the \<open>level\<close>.
  \<open>renderReferenceElement\<close> is only called for an id that the heap holds.
\<close>

function drawList :: "heap_t \<Rightarrow> value_desc list \<Rightarrow> nat \<Rightarrow> drawing"
  and renderListElement :: "heap_t \<Rightarrow> value_desc \<Rightarrow> nat \<Rightarrow> nat \<Rightarrow> drawing"
  and renderReferenceElement :: "heap_t \<Rightarrow> string \<Rightarrow> nat \<Rightarrow> nat \<Rightarrow> drawing"
where
  "drawList h elements level =
     (level, Text ''list'') #
     concat (map (\<lambda>(i, element).
                    [(level, Rect)]
                    @ (if i + 1 < length elements then [(level, Line)] else [])
                    @ [(level, Text (str_nat i))]
                    @ renderListElement h element i level)
                 (enumerate 0 elements))"
| "renderListElement h element index level =
     (case element of
        Primitive v \<Rightarrow> [(level, Text ([CHR 0x22] @ v @ [CHR 0x22]))]
      | Reference i \<Rightarrow>
          (if i \<noteq> [] \<and> map_of h i \<noteq> None then renderReferenceElement h i index level
           else []))"
| "renderReferenceElement h i index level =
     (case map_of h i of
        None \<Rightarrow> []
      | Some heapObj \<Rightarrow>
          [(level, Rect), (level, Text (ref_indicator (entry_type heapObj)))]
          @ (if level < 3 then
               (case body heapObj of
                  ListBody ot es \<Rightarrow>
                    drawList h es (level + 1) @ [(level, Connector False index)]
                | DictBody d \<Rightarrow>
                    map (Pair (level + 1)) (drawDict d False) @ [(level, Connector False index)]
                | _ \<Rightarrow> [])
             else []))"
  by pat_completeness auto
termination
  by (relation "measure (\<lambda>x. case x of
                    Inl (h, elements, level) \<Rightarrow> 3 * (4 - level) + 2
                  | Inr (Inl (h, element, index, level)) \<Rightarrow> 3 * (4 - level) + 1
                  | Inr (Inr (h, i, index, level)) \<Rightarrow> 3 * (4 - level))")
     auto

declare drawList.simps [simp del]
declare renderListElement.simps [simp del]
declare renderReferenceElement.simps [simp del]

definition addCounterHighlighting :: "heap_entry \<Rightarrow> prim list" where
  "addCounterHighlighting obj =
     (case annotation obj of
        Some a \<Rightarrow> (if a \<noteq> [] then [Text a] else [])
      | None \<Rightarrow> [])
     @ [Rect]"

definition renderHeapObject :: "heap_t \<Rightarrow> heap_entry \<Rightarrow> drawing" where
  "renderHeapObject h obj =
     (case body obj of
        FunctionBody n v \<Rightarrow> map (Pair 0) (drawFunction v)
      | ListBody ot es \<Rightarrow> drawList h es 0
      | DictBody d \<Rightarrow> map (Pair 0) (drawDict d False)
      | CounterBody d oid \<Rightarrow> map (Pair 0) (drawDict d True @ addCounterHighlighting obj))"

definition renderPrimitiveVariable :: "string \<Rightarrow> prim list" where
  "renderPrimitiveVariable v =
     (let valueText = (if v = [] then [CHR 0x22, CHR 0x22] else v) in [Rect, Text valueText])"

definition renderReferenceVariable :: "heap_t \<Rightarrow> heap_entry \<Rightarrow> drawing" where
  "renderReferenceVariable h obj =
     map (Pair 0) [Rect, Text (ref_indicator (entry_type obj))]
     @ renderHeapObject h obj
     @ [(0, Connector True 0)]"

definition renderVariable :: "heap_t \<Rightarrow> string \<times> value_desc \<Rightarrow> drawing" where
  "renderVariable h nd =
     (0, Text (fst nd)) #
     (case snd nd of
        Primitive v \<Rightarrow> map (Pair 0) (renderPrimitiveVariable v)
      | Reference i \<Rightarrow>
          (case map_of h i of Some obj \<Rightarrow> renderReferenceVariable h obj | None \<Rightarrow> []))"

text \<open>
  \<open>collectListInfo\<close>: name and size of every list a frame variable refers to, the first
  entry for each name.
\<close>

definition list_info_of :: "heap_t \<Rightarrow> string \<times> value_desc \<Rightarrow> (string \<times> nat) list" where
  "list_info_of h nd =
     (case snd nd of
        Reference i \<Rightarrow>
          (case map_of h i of
             Some obj \<Rightarrow> (case body obj of ListBody ot es \<Rightarrow> [(fst nd, length es)] | _ \<Rightarrow> [])
           | None \<Rightarrow> [])
      | Primitive v \<Rightarrow> [])"

fun first_by_name :: "string list \<Rightarrow> (string \<times> nat) list \<Rightarrow> (string \<times> nat) list" where
  "first_by_name seen [] = []"
| "first_by_name seen ((n, k) # rest) =
     (if n \<in> set seen then first_by_name seen rest else (n, k) # first_by_name (n # seen) rest)"

definition collectListInfo :: "frame_info list \<Rightarrow> heap_t \<Rightarrow> (string \<times> nat) list" where
  "collectListInfo frames h =
     first_by_name []
       (concat (map (\<lambda>fr. if name fr = ''Error Frame'' then []
                           else concat (map (list_info_of h) (variables fr))) frames))"

text \<open>The bullet character U+2022 in UTF-8.\<close>

definition bullet :: string where
  "bullet = [CHR 0xE2, CHR 0x80, CHR 0xA2]"

definition addInformationalElements :: "(string \<times> nat) list \<Rightarrow> prim list" where
  "addInformationalElements listInfo =
     [Rect,
      Text (join '' | '' (map (\<lambda>(n, k). n @ '' size: '' @ str_nat k) listInfo)),
      Rect,
      Text ''Visual Indicators for References:'',
      Text (bullet @ '' [] - Represents a reference to a nested list''),
      Text (bullet @ '' {} - Represents a reference to a dictionary''),
      Text (bullet @ '' fn - Represents a reference to a function'')]"

text \<open>
  \<open>drawCallStack\<close> on frames that carry no \<open>output\<close> property, as the one frame has that
  the effect below passes: \<open>hasError\<close> is false and every frame is drawn.  A variable named
  \<open>size\<close> is removed before drawing, since no frame has \<open>originalVariables\<close>.
\<close>

definition drawFrame :: "heap_t \<Rightarrow> (string \<times> nat) list \<Rightarrow> frame_info \<Rightarrow> drawing" where
  "drawFrame h listInfo frameInfo =
     (let vars = filter (\<lambda>(n, d). n \<noteq> ''size'') (variables frameInfo)
      in map (Pair 0)
           ([Rect] @ replicate (length vars) Line @ [Line] @ [Rect, Text (name frameInfo)])
         @ concat (map (renderVariable h) vars)
         @ (if name frameInfo = ''Global frame'' \<and> length listInfo > 0
            then map (Pair 0) (addInformationalElements listInfo) else []))"

definition drawCallStack :: "frame_info list \<Rightarrow> heap_t \<Rightarrow> drawing" where
  "drawCallStack frames h = concat (map (drawFrame h (collectListInfo frames h)) frames)"

text \<open>
  \<open>detectImportError\<close>.  The steps that the Python side produces have a \<open>frame\<close> and no
  \<open>frames\<close> property, so the check of \<open>frames\<close> is passed over.
\<close>

definition detectImportError :: "heap_t snapshot \<Rightarrow> bool" where
  "detectImportError es =
     (if output_text es \<noteq> []
         \<and> (str_includes (output_text es) ''not found or not supported''
              \<or> str_includes (output_text es) ''ImportError'')
      then True
      else ''error_type'' \<in> set (dict_keys (variables (frame es))))"

definition import_error_text :: string where
  "import_error_text =
     ''This code contains imports that aren'' @ [CHR 0x27]
       @ ''t supported in the browser environment. Try modifying the code to use built-in modules only.''"

definition renderImportErrorMessage :: drawing where
  "renderImportErrorMessage =
     map (Pair 0)
       [Rect, Rect, Text ''Import Error'',
        Text (''This code contains imports that aren'' @ [CHR 0x27]
              @ ''t supported in the browser environment.''),
        Text (''Module '' @ [CHR 0x27] @ ''requests'' @ [CHR 0x27]
              @ '' cannot be imported in this Python Tutor visualization.''),
        Text ''Try modifying the code to use built-in modules only.'']"

text \<open>
  The body of the component's effect, run with the SVG element mounted whenever
  \<open>executionState\<close> changes: the new store and the content of the SVG after it.  The
  fade-in and draw-in transitions change no content.
\<close>

definition render_effect :: "store \<Rightarrow> store \<times> drawing" where
  "render_effect st =
     (let es = executionState st
      in if detectImportError es then
           (setExecutionSteps [] (setError (Some import_error_text) st),
            renderImportErrorMessage)
         else
           (st,
            [(0, Marker), (0, Text ''Objects'')]
            @ drawCallStack
                [\<lparr>name = (if name (frame es) \<noteq> [] then name (frame es) else ''Global frame''),
                  variables = variables (frame es)\<rparr>]
                (heap es)))"

section \<open>Concrete inputs\<close>

text \<open>
  A host \<open>str\<close> for objects, and the host's \<open>str\<close> on a dictionary of strings that contain
  no quote, backslash or control character (Python prints \<open>{'k': 'v', ...}\<close>).
\<close>

definition plain_str :: "pyval \<Rightarrow> string" where
  "plain_str v = ''<object>''"

definition plain_str_dict :: "(string \<times> string) list \<Rightarrow> string" where
  "plain_str_dict d = ''{'' @ dict_content d @ ''}''"

text \<open>The state after initialisation, before the first run.\<close>

definition initial_pystate :: pystate where
  "initial_pystate =
     \<lparr>visualizer_heap = [], next_heap_id = 1, capturer_value = [], execution_steps = [],
      stdout_is_capturer = True\<rparr>"

text \<open>
  The frame of the user's module at a line, with the given user variables: \<open>exec\<close> runs the
  code in \<open>{'__name__': '__main__'}\<close> and adds \<open>__builtins__\<close>.
\<close>

definition module_frame :: "int \<Rightarrow> (string \<times> pyval) list \<Rightarrow> pyframe" where
  "module_frame line vars =
     (let g = [(''__name__'', PStr ''__main__''), (''__builtins__'', PDict 0 ''dict'' [])] @ vars
      in \<lparr>co_name = ''<module>'', f_lineno = line, f_globals = g, f_locals = g\<rparr>)"

text \<open>
  The frame of \<open>OutputCapturer.write\<close> at one of its two lines (7 and 8 of the snippet that
  defines it), whose globals are those of the snippet.
\<close>

definition write_frame :: "int \<Rightarrow> string \<Rightarrow> pyframe" where
  "write_frame line text =
     \<lparr>co_name = ''write'', f_lineno = line,
      f_globals = [(''__name__'', PStr ''__main__'')],
      f_locals = [(''self'', PObject 1 ''OutputCapturer'' False [] []), (''text'', PStr text)]\<rparr>"

text \<open>
  The frame of \<open>run_with_trace\<close> itself, as \<open>sys._getframe()\<close> returns it when no step was
  captured: line 49 of the snippet, with the locals \<open>code\<close>, \<open>namespace\<close> and \<open>frame\<close> bound.
\<close>

definition own_frame0 :: pyframe where
  "own_frame0 =
     \<lparr>co_name = ''run_with_trace'', f_lineno = 49,
      f_globals = [(''__name__'', PStr ''__main__'')],
      f_locals =
        [(''code'', PStr []),
         (''namespace'',
          PDict 2 ''dict''
            [(PStr ''__name__'', PStr ''__main__''), (PStr ''__builtins__'', PDict 0 ''dict'' [])]),
         (''frame'', PObject 3 ''frame'' False [] [])]\<rparr>"

text \<open>
  A run in which no exception reaches an \<open>except\<close> clause runs none of them, and no
  event is reported from one.
\<close>

definition no_trace :: handler_trace where
  "no_trace =
     \<lparr>during_str = [], before_print = [], between_writes = [], after_print = [],
      outer_during_str = [], outer_before_print = [], outer_between_writes = [],
      outer_after_print = []\<rparr>"

text \<open>
  The frame of \<open>create_error_state\<close> at a line of the snippet that defines it, and the
  events that the interpreter reports while an inner \<open>except\<close> clause handles an
  exception of a built-in class (whose \<open>str\<close> runs no Python code): the call of
  \<open>create_error_state\<close> at line 19 and its lines 21 and 22; the two calls of
  \<open>OutputCapturer.write\<close> that \<open>print\<close> makes; the lines 24 to 27 of the dictionary display,
  line 23 where the dictionary is bound to \<open>state\<close>, and line 29, where \<open>state\<close> is a local
  variable.  The outer clause does not run.
\<close>

definition handler_frame :: "int \<Rightarrow> (string \<times> pyval) list \<Rightarrow> pyframe" where
  "handler_frame line vars =
     \<lparr>co_name = ''create_error_state'', f_lineno = line,
      f_globals = [(''__name__'', PStr ''__main__'')], f_locals = vars\<rparr>"

text \<open>
  The dictionary that \<open>create_error_state\<close> builds, as the live value of its local
  variable \<open>state\<close>.
\<close>

definition error_state_value :: "string \<Rightarrow> pyval" where
  "error_state_value full =
     PDict 21 ''dict''
       [(PStr ''frame'',
         PDict 22 ''dict''
           [(PStr ''name'', PStr ''Global frame''), (PStr ''variables'', PDict 23 ''dict'' [])]),
        (PStr ''heap'', PDict 24 ''dict'' []),
        (PStr ''output'', PStr full),
        (PStr ''currentLine'', PInt 1)]"

definition handler_trace1 :: "string \<Rightarrow> string \<Rightarrow> handler_trace" where
  "handler_trace1 et msg =
     (let args = [(''error_type'', PStr et), (''error_msg'', PStr msg)];
          full = et @ '': '' @ msg;
          vars = args @ [(''full_message'', PStr full)]
      in \<lparr>during_str = [],
          before_print =
            [(handler_frame 19 args, ''call''), (handler_frame 21 args, ''line''),
             (handler_frame 22 vars, ''line''),
             (write_frame 6 full, ''call''), (write_frame 7 full, ''line'')],
          between_writes =
            [(write_frame 8 full, ''line''), (write_frame 8 full, ''return''),
             (write_frame 6 [CHR 0x0A], ''call''), (write_frame 7 [CHR 0x0A], ''line'')],
          after_print =
            [(write_frame 8 [CHR 0x0A], ''line''), (write_frame 8 [CHR 0x0A], ''return''),
             (handler_frame 24 vars, ''line''), (handler_frame 25 vars, ''line''),
             (handler_frame 26 vars, ''line''), (handler_frame 27 vars, ''line''),
             (handler_frame 23 vars, ''line''),
             (handler_frame 29 (vars @ [(''state'', error_state_value full)]), ''line'')],
          outer_during_str = [], outer_before_print = [], outer_between_writes = [],
          outer_after_print = []\<rparr>)"

text \<open>Two processed steps of \<open>x = 5; print(x + 1)\<close>, and a store holding them.\<close>

definition step_a :: "heap_t snapshot" where
  "step_a =
     \<lparr>frame = \<lparr>name = ''Global frame'', variables = []\<rparr>, heap = [],
      output_text = ''6'' @ [CHR 0x0A], currentLine = 1\<rparr>"

definition step_b :: "heap_t snapshot" where
  "step_b =
     \<lparr>frame = \<lparr>name = ''Global frame'', variables = [(''x'', Primitive ''5'')]\<rparr>, heap = [],
      output_text = ''6'' @ [CHR 0x0A], currentLine = 2\<rparr>"

definition two_step_store :: store where
  "two_step_store = initial_store\<lparr>executionSteps := [step_a, step_b]\<rparr>"


text \<open>A heap whose only entry is a list that contains itself, and a store that shows it.\<close>

definition self_heap :: heap_t where
  "self_heap = [(''id1'', \<lparr>body = ListBody ''list'' [Reference ''id1''], annotation = None\<rparr>)]"

definition self_store :: store where
  "self_store =
     initial_store
       \<lparr>executionState :=
          \<lparr>frame = \<lparr>name = ''Global frame'', variables = [(''a'', Reference ''id1'')]\<rparr>,
           heap = self_heap, output_text = [], currentLine = 2\<rparr>\<rparr>"

text \<open>
  What the interpreter does for \<open>print(text)\<close> while \<open>sys.stdout\<close> is the capturer and the
  trace function is installed: \<open>OutputCapturer.write\<close> is Python code, so its call, its two
  lines and its return are reported, once for the text and once for the line end.
\<close>

definition print_actions :: "string \<Rightarrow> action list" where
  "print_actions text =
     [Trace (write_frame 6 text) ''call'', Trace (write_frame 7 text) ''line'',
      StdoutWrite text,
      Trace (write_frame 8 text) ''line'', Trace (write_frame 8 text) ''return'',
      Trace (write_frame 6 [CHR 0x0A]) ''call'', Trace (write_frame 7 [CHR 0x0A]) ''line'',
      StdoutWrite [CHR 0x0A],
      Trace (write_frame 8 [CHR 0x0A]) ''line'', Trace (write_frame 8 [CHR 0x0A]) ''return'']"

text \<open>
  The program \<open>print("hi")\<close>.
\<close>

definition print_hi_code :: "action list" where
  "print_hi_code =
     [Trace (module_frame 1 []) ''call'', Trace (module_frame 1 []) ''line'']
     @ print_actions ''hi''
     @ [Trace (module_frame 1 []) ''return'']"

text \<open>
  A host whose import finds every module it is asked for.
\<close>

definition host_import :: "string \<Rightarrow> pyexc + string" where
  "host_import n = Inr n"

definition print_hi_run :: "(pyexc + heap_t snapshot list) \<times> pystate" where
  "print_hi_run = run_with_trace plain_str plain_str_dict host_import own_frame0 no_trace print_hi_code initial_pystate"






text \<open>
  The program \<open>x = 0\<close>, then on line 2 \<open>while x < 2: x += 1\<close>: the interpreter reports
  line 2 again when the loop jumps back.
\<close>

definition loop_code :: "action list" where
  "loop_code =
     [Trace (module_frame 1 []) ''call'', Trace (module_frame 1 []) ''line'',
      Trace (module_frame 2 [(''x'', PInt 0)]) ''line'',
      Trace (module_frame 2 [(''x'', PInt 1)]) ''line'',
      Trace (module_frame 2 [(''x'', PInt 2)]) ''return'']"

definition loop_run :: "(pyexc + heap_t snapshot list) \<times> pystate" where
  "loop_run = run_with_trace plain_str plain_str_dict host_import own_frame0 no_trace loop_code initial_pystate"


text \<open>
  The program \<open>x = 1\<close>, then \<open>raise ValueError("boom")\<close>.
\<close>

definition boom_code :: "action list" where
  "boom_code =
     [Trace (module_frame 1 []) ''call'', Trace (module_frame 1 []) ''line'',
      Trace (module_frame 2 [(''x'', PInt 1)]) ''line'',
      Trace (module_frame 2 [(''x'', PInt 1)]) ''exception'',
      Raise (PyExc OtherExceptionCls ''boom'')]"

definition boom_run :: "(pyexc + heap_t snapshot list) \<times> pystate" where
  "boom_run = run_with_trace plain_str plain_str_dict host_import own_frame0
                (handler_trace1 ''Error'' ''boom'') boom_code initial_pystate"


text \<open>
  The program \<open>from collections import Counter; c = Counter([1, 1, 2]);
  d = Counter([1, 1, 2]); e = 0\<close>, one statement per line.  The class \<open>Counter\<close> is a
  callable without \<open>__code__\<close>; \<open>c\<close> and \<open>d\<close> are two instances with equal counts.
\<close>

definition counter_class :: pyval where
  "counter_class = PCallable ''Counter'' None"

definition counter_c :: pyval where
  "counter_c = PDict 11 ''Counter'' [(PInt 1, PInt 2), (PInt 2, PInt 1)]"

definition counter_d :: pyval where
  "counter_d = PDict 12 ''Counter'' [(PInt 1, PInt 2), (PInt 2, PInt 1)]"

definition counter_code :: "action list" where
  "counter_code =
     [Trace (module_frame 1 []) ''call'', Trace (module_frame 1 []) ''line'',
      ImportStmt ''collections'',
      Trace (module_frame 2 [(''Counter'', counter_class)]) ''line'',
      Trace (module_frame 3 [(''Counter'', counter_class), (''c'', counter_c)]) ''line'',
      Trace (module_frame 4 [(''Counter'', counter_class), (''c'', counter_c), (''d'', counter_d)]) ''line'',
      Trace (module_frame 4 [(''Counter'', counter_class), (''c'', counter_c), (''d'', counter_d), (''e'', PInt 0)]) ''return'']"

definition counter_run :: "(pyexc + heap_t snapshot list) \<times> pystate" where
  "counter_run = run_with_trace plain_str plain_str_dict host_import own_frame0 no_trace counter_code initial_pystate"



text \<open>
  The program \<open>x = 5; y = x + 1; print(y)\<close>, one statement per line.
\<close>

definition sum_code :: "action list" where
  "sum_code =
     [Trace (module_frame 1 []) ''call'', Trace (module_frame 1 []) ''line'',
      Trace (module_frame 2 [(''x'', PInt 5)]) ''line'',
      Trace (module_frame 3 [(''x'', PInt 5), (''y'', PInt 6)]) ''line'']
     @ print_actions ''6''
     @ [Trace (module_frame 3 [(''x'', PInt 5), (''y'', PInt 6)]) ''return'']"

definition sum_run :: "(pyexc + heap_t snapshot list) \<times> pystate" where
  "sum_run = run_with_trace plain_str plain_str_dict host_import own_frame0 no_trace sum_code initial_pystate"

text \<open>
  The program \<open>d = {}\<close>, then \<open>d['k']\<close>; \<open>str(e)\<close> of the \<open>KeyError\<close> is \<open>'k'\<close> in quotes.
\<close>

definition key_message :: string where
  "key_message = [CHR 0x27] @ ''k'' @ [CHR 0x27]"

definition key_code :: "action list" where
  "key_code =
     [Trace (module_frame 1 []) ''call'', Trace (module_frame 1 []) ''line'',
      Trace (module_frame 2 [(''d'', PDict 5 ''dict'' [])]) ''line'',
      Trace (module_frame 2 [(''d'', PDict 5 ''dict'' [])]) ''exception'',
      Raise (PyExc KeyErrorCls key_message)]"

definition key_run :: "(pyexc + heap_t snapshot list) \<times> pystate" where
  "key_run = run_with_trace plain_str plain_str_dict host_import own_frame0
               (handler_trace1 ''KeyError'' key_message) key_code initial_pystate"

section \<open>Evaluating runs\<close>

lemma run_with_trace_code [code]:
  "run_with_trace hs hsd ri own_frame tr code st =
     restore_stdout (after_exec hs hsd own_frame tr (exec_actions hs ri code (reset_state st)))"
  by (simp add: run_with_trace_def restore_stdout_def after_exec_def steps_result_def
      reset_state_def Let_def split: prod.splits sum.splits)

section \<open>Facts about strings\<close>

lemma startswith_append: "startswith (n @ b) n"
  by (induction n) auto

lemma startswith_includes: "startswith s n \<Longrightarrow> str_includes s n"
  by (cases s; cases n) auto

lemma str_includes_prepend: "str_includes b n \<Longrightarrow> str_includes (a @ b) n"
  by (induction a) auto

lemma str_includes_append: "str_includes (a @ n @ b) n"
  by (simp add: str_includes_prepend startswith_includes startswith_append)

lemma str_includes_join: "m \<in> set ms \<Longrightarrow> str_includes (join sep ms) m"
proof (induction sep ms rule: join.induct)
  case (1 sep)
  then show ?case by simp
next
  case (2 sep x)
  then show ?case using str_includes_append[of "[]" m "[]"] by simp
next
  case (3 sep x y ys)
  show ?case
  proof (cases "m = x")
    case True
    then show ?thesis using str_includes_append[of "[]" x "sep @ join sep (y # ys)"] by simp
  next
    case False
    with 3 have "str_includes (join sep (y # ys)) m" by simp
    then have "str_includes ((x @ sep) @ join sep (y # ys)) m" by (rule str_includes_prepend)
    then show ?thesis by simp
  qed
qed

lemma allowed_in_message: "m \<in> set allowed_modules \<Longrightarrow> str_includes requests_message m"
  unfolding requests_message_def by (intro str_includes_prepend str_includes_join)

section \<open>The import guard\<close>

lemma exec_actions_stops_at_import:
  assumes "lower n \<in> set unsupported_modules"
  shows "exec_actions hs ri (pre @ ImportStmt n # rest) st
         = exec_actions hs ri (pre @ [ImportStmt n]) st"
proof (induction pre arbitrary: st)
  case Nil
  then show ?case using assms by (simp add: custom_import_def)
next
  case (Cons a pre)
  then show ?case by (cases a) (auto split: sum.splits)
qed

text \<open>
  C2, as stated: every module name outside the enumerated allow-list fails to import.
  The guard is a deny-list: \<open>os\<close> is not among the enumerated modules, and the guard hands
  it to the host's import, which here succeeds.
\<close>

theorem custom_import_passes_unlisted_module:
  "''os'' \<notin> set allowed_modules \<and> custom_import Inr ''os'' = (Inr ''os'' :: pyexc + string)"
  by (simp add: allowed_modules_def custom_import_def lower_def lower_char_def
      unsupported_modules_def)

text \<open>
  C2, amended: a module whose lower-cased name is on the deny-list fails to import with an
  \<open>ImportError\<close> whose message names the module (for \<open>requests\<close>: enumerates every importable
  module), whatever the host's import would do; nothing of the program after that import
  runs, so the run is the same as if the program ended there.  Every other name is
  handed to the host's import unchanged.
\<close>

theorem custom_import_rejects_deny_list:
  "(lower n \<in> set unsupported_modules \<longrightarrow>
      (\<exists>msg. custom_import ri n = Inl (PyExc ImportErrorCls msg)
             \<and> (if lower n = ''requests''
                  then (\<forall>m \<in> set allowed_modules. str_includes msg m)
                  else str_includes msg n))
      \<and> exec_actions hs ri (pre @ ImportStmt n # rest) st
          = exec_actions hs ri (pre @ [ImportStmt n]) st
      \<and> run_with_trace hs hsd ri fr tr (pre @ ImportStmt n # rest) st
          = run_with_trace hs hsd ri fr tr (pre @ [ImportStmt n]) st)
   \<and> (lower n \<notin> set unsupported_modules \<longrightarrow> custom_import ri n = ri n)"
proof (intro conjI impI)
  assume h: "lower n \<in> set unsupported_modules"
  show "\<exists>msg. custom_import ri n = Inl (PyExc ImportErrorCls msg)
             \<and> (if lower n = ''requests''
                  then (\<forall>m \<in> set allowed_modules. str_includes msg m)
                  else str_includes msg n)"
  proof (cases "lower n = ''requests''")
    case True
    with h show ?thesis by (simp add: custom_import_def allowed_in_message)
  next
    case False
    have "str_includes (unsupported_message n) n"
      unfolding unsupported_message_def
      using str_includes_append[of "''Module '' @ [CHR 0x27]" n] by simp
    with False h show ?thesis by (simp add: custom_import_def)
  qed
  show "exec_actions hs ri (pre @ ImportStmt n # rest) st
          = exec_actions hs ri (pre @ [ImportStmt n]) st"
    using h by (rule exec_actions_stops_at_import)
  show "run_with_trace hs hsd ri fr tr (pre @ ImportStmt n # rest) st
          = run_with_trace hs hsd ri fr tr (pre @ [ImportStmt n]) st"
    unfolding run_with_trace_def
    by (simp only: exec_actions_stops_at_import[OF h, of hs ri pre rest])
next
  assume "lower n \<notin> set unsupported_modules"
  then show "custom_import ri n = ri n" by (simp add: custom_import_def)
qed

text \<open>
  The program \<open>print("a", end=""); import NumPy; print("b", end="")\<close>: the import raises and
  \<open>b\<close> is never written.  \<open>import math\<close> reaches the host's import.  The message for
  \<open>requests\<close> names \<open>math\<close> among the importable modules.
\<close>

theorem custom_import_rejects_deny_list_witness:
  "lower ''NumPy'' \<in> set unsupported_modules
   \<and> custom_import Inr ''NumPy''
       = (Inl (PyExc ImportErrorCls (unsupported_message ''NumPy'')) :: pyexc + string)
   \<and> fst (exec_actions plain_str (Inr :: string \<Rightarrow> pyexc + string)
            ([StdoutWrite ''a''] @ ImportStmt ''NumPy'' # [StdoutWrite ''b'']) initial_pystate)
       = Some (PyExc ImportErrorCls (unsupported_message ''NumPy''))
   \<and> capturer_value
        (snd (exec_actions plain_str (Inr :: string \<Rightarrow> pyexc + string)
               ([StdoutWrite ''a''] @ ImportStmt ''NumPy'' # [StdoutWrite ''b'']) initial_pystate))
       = ''a''
   \<and> lower ''math'' \<notin> set unsupported_modules
   \<and> custom_import Inr ''math'' = (Inr ''math'' :: pyexc + string)
   \<and> custom_import Inr ''requests''
       = (Inl (PyExc ImportErrorCls requests_message) :: pyexc + string)
   \<and> ''math'' \<in> set allowed_modules
   \<and> str_includes requests_message ''math''"
proof -
  have r: "lower ''requests'' \<in> set unsupported_modules" "lower ''requests'' = ''requests''"
    by (simp_all add: lower_def lower_char_def unsupported_modules_def)
  have m: "''math'' \<in> set allowed_modules" by (simp add: allowed_modules_def)
  have q: "custom_import Inr ''requests''
           = (Inl (PyExc ImportErrorCls requests_message) :: pyexc + string)"
    using r by (simp add: custom_import_def)
  from custom_import_rejects_deny_list[of "''requests''" "Inr :: string \<Rightarrow> pyexc + string"] r q
  have "\<forall>m \<in> set allowed_modules. str_includes requests_message m" by simp
  with m have i: "str_includes requests_message ''math''" by blast
  have n: "lower ''NumPy'' \<in> set unsupported_modules
   \<and> custom_import Inr ''NumPy''
       = (Inl (PyExc ImportErrorCls (unsupported_message ''NumPy'')) :: pyexc + string)
   \<and> fst (exec_actions plain_str (Inr :: string \<Rightarrow> pyexc + string)
            ([StdoutWrite ''a''] @ ImportStmt ''NumPy'' # [StdoutWrite ''b'']) initial_pystate)
       = Some (PyExc ImportErrorCls (unsupported_message ''NumPy''))
   \<and> capturer_value
        (snd (exec_actions plain_str (Inr :: string \<Rightarrow> pyexc + string)
               ([StdoutWrite ''a''] @ ImportStmt ''NumPy'' # [StdoutWrite ''b'']) initial_pystate))
       = ''a''
   \<and> lower ''math'' \<notin> set unsupported_modules
   \<and> custom_import Inr ''math'' = (Inr ''math'' :: pyexc + string)"
    using custom_import_rejects_deny_list[of "''NumPy''" "Inr :: string \<Rightarrow> pyexc + string"
            plain_str "[StdoutWrite ''a'']" "[StdoutWrite ''b'']" initial_pystate]
          custom_import_rejects_deny_list[of "''math''" "Inr :: string \<Rightarrow> pyexc + string"]
    by (simp add: lower_def lower_char_def unsupported_modules_def custom_import_def
        initial_pystate_def stdout_write_def)
  from n q m i show ?thesis by blast
qed

section \<open>The store\<close>

lemma or_empty_id: "or_empty x = x"
  by (simp add: or_empty_def)

lemma snapshot_output_update:
  "(r :: 'h snapshot)\<lparr>output_text := v\<rparr>
   = \<lparr>frame = frame r, heap = heap r, output_text = v, currentLine = currentLine r\<rparr>"
  by (cases r) simp

text \<open>
  C9: jumping to step \<open>i\<close> leaves the store unchanged when \<open>i\<close> is outside
  \<open>[0, len(steps))\<close>; otherwise the current index becomes \<open>i\<close> and the displayed state is
  step \<open>i\<close>'s frame, heap and line with the output of the last step, all else unchanged.
\<close>

theorem setCurrentStepIndex_jump:
  "(\<not> (0 \<le> i \<and> i < int (length (executionSteps s))) \<longrightarrow> setCurrentStepIndex i s = s)
   \<and> (0 \<le> i \<and> i < int (length (executionSteps s)) \<longrightarrow>
        setCurrentStepIndex i s
          = s\<lparr>currentStepIndex := i,
               executionState :=
                 \<lparr>frame = frame (executionSteps s ! nat i),
                  heap = heap (executionSteps s ! nat i),
                  output_text = output_text (last (executionSteps s)),
                  currentLine = currentLine (executionSteps s ! nat i)\<rparr>\<rparr>)"
proof (intro conjI impI)
  assume "\<not> (0 \<le> i \<and> i < int (length (executionSteps s)))"
  then show "setCurrentStepIndex i s = s" by (auto simp: setCurrentStepIndex_def)
next
  assume h: "0 \<le> i \<and> i < int (length (executionSteps s))"
  then have ne: "executionSteps s \<noteq> []" by auto
  have l: "executionSteps s ! (length (executionSteps s) - Suc 0) = last (executionSteps s)"
    using ne by (simp add: last_conv_nth)
  show "setCurrentStepIndex i s
          = s\<lparr>currentStepIndex := i,
               executionState :=
                 \<lparr>frame = frame (executionSteps s ! nat i),
                  heap = heap (executionSteps s ! nat i),
                  output_text = output_text (last (executionSteps s)),
                  currentLine = currentLine (executionSteps s ! nat i)\<rparr>\<rparr>"
    using h by (simp add: setCurrentStepIndex_def l or_empty_id Let_def snapshot_output_update)
qed

theorem setCurrentStepIndex_jump_witness:
  "setCurrentStepIndex 2 two_step_store = two_step_store
   \<and> setCurrentStepIndex (- 1) two_step_store = two_step_store
   \<and> setCurrentStepIndex 0 (setCurrentStepIndex 1 two_step_store)
       = two_step_store\<lparr>currentStepIndex := 0, executionState := step_a\<rparr>"
  using setCurrentStepIndex_jump[of 2 two_step_store]
        setCurrentStepIndex_jump[of "- 1" two_step_store]
        setCurrentStepIndex_jump[of 1 two_step_store]
        setCurrentStepIndex_jump[of 0 "setCurrentStepIndex 1 two_step_store"]
  by (simp add: two_step_store_def initial_store_def step_a_def step_b_def)

section \<open>The import-error panel\<close>



section \<open>Depth of the layout recursion\<close>

lemma depth_bound:
  "(level \<le> 3 \<longrightarrow> (\<forall>dp \<in> set (drawList h elements level). level \<le> fst dp \<and> fst dp \<le> 3))"
  "(level \<le> 3 \<longrightarrow> (\<forall>dp \<in> set (renderListElement h element index level). level \<le> fst dp \<and> fst dp \<le> 3))"
  "(level \<le> 3 \<longrightarrow> (\<forall>dp \<in> set (renderReferenceElement h i index level). level \<le> fst dp \<and> fst dp \<le> 3))"
proof (induction h elements level and h element index level and h i index level
       rule: drawList_renderListElement_renderReferenceElement.induct)
  case (1 h elements level)
  show ?case
  proof (intro impI ballI)
    fix dp assume l: "level \<le> 3" and m: "dp \<in> set (drawList h elements level)"
    from m consider "dp = (level, Text ''list'')"
      | ie where "ie \<in> set (enumerate 0 elements)"
          "dp \<in> set ([(level, Rect)]
                    @ (if fst ie + 1 < length elements then [(level, Line)] else [])
                    @ [(level, Text (str_nat (fst ie)))]
                    @ renderListElement h (snd ie) (fst ie) level)"
      by (subst (asm) drawList.simps) (auto split: prod.splits)
    then show "level \<le> fst dp \<and> fst dp \<le> 3"
    proof cases
      case 1
      then show ?thesis using l by simp
    next
      case 2
      obtain i e where ie: "ie = (i, e)" by (cases ie)
      from 2(1) ie have "(i, e) \<in> set (enumerate 0 elements)" by simp
      from "1.IH"[OF this] l
      have "\<forall>dp \<in> set (renderListElement h e i level). level \<le> fst dp \<and> fst dp \<le> 3" by simp
      with 2(2) ie l show ?thesis by (auto split: if_splits)
    qed
  qed
next
  case (2 h element index level)
  show ?case
  proof (cases element)
    case (Primitive v)
    then show ?thesis by (simp add: renderListElement.simps)
  next
    case (Reference i)
    with 2 show ?thesis by (simp add: renderListElement.simps)
  qed
next
  case (3 h i index level)
  show ?case
  proof (cases "map_of h i")
    case None
    then show ?thesis by (simp add: renderReferenceElement.simps)
  next
    case (Some heapObj)
    show ?thesis
    proof (cases "level < 3")
      case True
      show ?thesis
      proof (cases "body heapObj")
        case (ListBody ot es)
        from "3.IH"[OF Some True ListBody] True
        have "\<forall>dp \<in> set (drawList h es (level + 1)). level + 1 \<le> fst dp \<and> fst dp \<le> 3" by simp
        with Some True ListBody show ?thesis
          by (subst renderReferenceElement.simps) auto
      next
        case (DictBody d)
        with Some True show ?thesis
          by (subst renderReferenceElement.simps) (auto simp: drawDict_def)
      next
        case (FunctionBody n v)
        with Some True show ?thesis by (subst renderReferenceElement.simps) auto
      next
        case (CounterBody d oid)
        with Some True show ?thesis by (subst renderReferenceElement.simps) auto
      qed
    next
      case False
      with Some show ?thesis by (subst renderReferenceElement.simps) auto
    qed
  qed
qed

lemma drawList_depth: "dp \<in> set (drawList h es 0) \<Longrightarrow> fst dp \<le> 3"
  using depth_bound(1)[of 0 h es] by simp

lemma renderHeapObject_depth: "dp \<in> set (renderHeapObject h obj) \<Longrightarrow> fst dp \<le> 3"
  by (cases "body obj") (auto simp: renderHeapObject_def dest: drawList_depth)

lemma renderVariable_depth: "dp \<in> set (renderVariable h nd) \<Longrightarrow> fst dp \<le> 3"
  by (auto simp: renderVariable_def renderReferenceVariable_def
      split: value_desc.splits option.splits dest: renderHeapObject_depth)

lemma drawFrame_depth: "dp \<in> set (drawFrame h li fr) \<Longrightarrow> fst dp \<le> 3"
  by (auto simp: drawFrame_def Let_def dest: renderVariable_depth)

lemma drawCallStack_depth: "dp \<in> set (drawCallStack frames h) \<Longrightarrow> fst dp \<le> 3"
  by (auto simp: drawCallStack_def dest: drawFrame_depth)

lemma render_effect_depth: "dp \<in> set (snd (render_effect st)) \<Longrightarrow> fst dp \<le> 3"
  by (cases "detectImportError (executionState st)")
     (auto simp: render_effect_def Let_def renderImportErrorMessage_def dest: drawCallStack_depth)

text \<open>
  C7: the drawing functions terminate on every heap (they are total, by the termination
  proof of their definition, in which the \<open>level\<close> argument bounds the recursion), and
  nothing is drawn at a depth above 3, in a list drawn from level 0 as in everything the
  effect renders.  At level 3 a reference to another object gets its indicator only: the
  object itself is not drawn.
\<close>

theorem layout_depth_capped:
  "(\<forall>dp \<in> set (drawList h elements 0). fst dp \<le> 3)
   \<and> (\<forall>dp \<in> set (snd (render_effect st)). fst dp \<le> 3)
   \<and> renderReferenceElement h i index 3
       = (case map_of h i of
            None \<Rightarrow> []
          | Some obj \<Rightarrow> [(3, Rect), (3, Text (ref_indicator (entry_type obj)))])"
  by (auto simp: renderReferenceElement.simps split: option.splits
      dest: drawList_depth render_effect_depth)

text \<open>The list that contains itself is drawn four times, at the levels 0 to 3.\<close>

lemma self_drawing:
  "drawList self_heap [Reference ''id1''] 0
   = [(0, Text ''list''), (0, Rect), (0, Text ''0''), (0, Rect),
      (0, Text ''[]''), (1, Text ''list''), (1, Rect), (1, Text ''0''),
      (1, Rect), (1, Text ''[]''), (2, Text ''list''), (2, Rect),
      (2, Text ''0''), (2, Rect), (2, Text ''[]''), (3, Text ''list''),
      (3, Rect), (3, Text ''0''), (3, Rect), (3, Text ''[]''),
      (2, Connector False 0), (1, Connector False 0), (0, Connector False 0)]"
  by (simp add: drawList.simps renderListElement.simps renderReferenceElement.simps self_heap_def
      str_nat.simps digit_char_def entry_type_def ref_indicator_def enumerate_eq_zip)

theorem layout_depth_capped_witness:
  "drawList self_heap [Reference ''id1''] 0
   = [(0, Text ''list''), (0, Rect), (0, Text ''0''), (0, Rect),
      (0, Text ''[]''), (1, Text ''list''), (1, Rect), (1, Text ''0''),
      (1, Rect), (1, Text ''[]''), (2, Text ''list''), (2, Rect),
      (2, Text ''0''), (2, Rect), (2, Text ''[]''), (3, Text ''list''),
      (3, Rect), (3, Text ''0''), (3, Rect), (3, Text ''[]''),
      (2, Connector False 0), (1, Connector False 0), (0, Connector False 0)]
   \<and> map fst (snd (render_effect self_store))
       = [0, 0, 0, 0, 0, 0, 0, 0, 0, 0, 0, 0, 0, 0, 0, 1, 1, 1, 1, 1, 2, 2, 2, 2, 2,
          3, 3, 3, 3, 3, 2, 1, 0, 0, 0, 0, 0, 0, 0, 0, 0]
   \<and> renderReferenceElement self_heap ''id1'' 0 3 = [(3, Rect), (3, Text ''[]'')]"
proof -
  have a: "map fst (snd (render_effect self_store))
       = [0, 0, 0, 0, 0, 0, 0, 0, 0, 0, 0, 0, 0, 0, 0, 1, 1, 1, 1, 1, 2, 2, 2, 2, 2,
          3, 3, 3, 3, 3, 2, 1, 0, 0, 0, 0, 0, 0, 0, 0, 0]"
    by code_simp
  from layout_depth_capped[of self_heap "[Reference ''id1'']" self_store "''id1''" 0]
  have b: "renderReferenceElement self_heap ''id1'' 0 3 = [(3, Rect), (3, Text ''[]'')]"
    by (simp add: self_heap_def entry_type_def ref_indicator_def)
  from self_drawing a b show ?thesis by (intro conjI)
qed

section \<open>Heap ids\<close>

lemma digit_char_inj: "a < 10 \<Longrightarrow> b < 10 \<Longrightarrow> digit_char a = digit_char b \<Longrightarrow> a = b"
proof -
  assume a: "a < 10" and b: "b < 10" and e: "digit_char a = digit_char b"
  have d: "distinct ''0123456789''" by simp
  have "length ''0123456789'' = 10" by simp
  with a b e d show ?thesis unfolding digit_char_def
    by (metis nth_eq_iff_index_eq)
qed

lemma str_nat_nonempty: "str_nat n \<noteq> []"
  by (subst str_nat.simps) simp

lemma str_nat_length_ge2: "\<not> n < 10 \<Longrightarrow> 2 \<le> length (str_nat n)"
  using str_nat_nonempty[of "n div 10"]
  by (subst str_nat.simps) (cases "str_nat (n div 10)"; simp)

lemma str_nat_inj: "str_nat n = str_nat m \<Longrightarrow> n = m"
proof (induction n arbitrary: m rule: str_nat.induct)
  case (1 n)
  show ?case
  proof (cases "n < 10")
    case True
    note n = True
    show ?thesis
    proof (cases "m < 10")
      case True
      with n 1(2) show ?thesis by (simp add: str_nat.simps[of n] str_nat.simps[of m] digit_char_inj)
    next
      case False
      from n have "length (str_nat n) = 1" by (simp add: str_nat.simps[of n])
      with str_nat_length_ge2[OF False] 1(2) show ?thesis by simp
    qed
  next
    case False
    note n = False
    show ?thesis
    proof (cases "m < 10")
      case True
      from True have "length (str_nat m) = 1" by (simp add: str_nat.simps[of m])
      with str_nat_length_ge2[OF n] 1(2) show ?thesis by simp
    next
      case False
      from 1(2) n False
      have e: "str_nat (n div 10) @ [digit_char (n mod 10)] = str_nat (m div 10) @ [digit_char (m mod 10)]"
        by (simp add: str_nat.simps[of n] str_nat.simps[of m])
      then have "str_nat (n div 10) = str_nat (m div 10)" and d: "digit_char (n mod 10) = digit_char (m mod 10)"
        by simp_all
      with 1(1)[OF n] have q: "n div 10 = m div 10" by simp
      from d have r: "n mod 10 = m mod 10" by (intro digit_char_inj) simp_all
      from q r show ?thesis by (metis div_mult_mod_eq)
    qed
  qed
qed

lemma heap_id_inj: "''id'' @ str_nat n = ''id'' @ str_nat m \<longleftrightarrow> n = m"
  using str_nat_inj by auto

text \<open>
  For an \<open>int\<close>, \<open>float\<close>, \<open>bool\<close> or \<open>str\<close> item of a \<open>dict\<close>, \<open>dict_item_value\<close> is the value of
  the descriptor that \<open>process_value\<close> returns, and the call leaves the state as it is.
\<close>

lemma dict_item_value_scalar:
  "process_value hs (PInt i) st = (Primitive (dict_item_value hs (PInt i)), st)"
  "process_value hs (PFloat s) st = (Primitive (dict_item_value hs (PFloat s)), st)"
  "process_value hs (PBool b) st = (Primitive (dict_item_value hs (PBool b)), st)"
  "process_value hs (PStr s) st = (Primitive (dict_item_value hs (PStr s)), st)"
  by simp_all

lemma process_value_frame:
  "capturer_value (snd (process_value hs v st)) = capturer_value st
   \<and> execution_steps (snd (process_value hs v st)) = execution_steps st
   \<and> stdout_is_capturer (snd (process_value hs v st)) = stdout_is_capturer st
   \<and> next_heap_id st \<le> next_heap_id (snd (process_value hs v st))"
  "capturer_value (snd (process_values hs vs st)) = capturer_value st
   \<and> execution_steps (snd (process_values hs vs st)) = execution_steps st
   \<and> stdout_is_capturer (snd (process_values hs vs st)) = stdout_is_capturer st
   \<and> next_heap_id st \<le> next_heap_id (snd (process_values hs vs st))"
proof (induction hs v st and hs vs st rule: process_value_process_values.induct)
  case (7 hs xs st)
  obtain hid st1 where g: "get_heap_id st = (hid, st1)" by (cases "get_heap_id st")
  then have n: "next_heap_id st \<le> next_heap_id st1" "capturer_value st1 = capturer_value st"
    "execution_steps st1 = execution_steps st" "stdout_is_capturer st1 = stdout_is_capturer st"
    by (auto simp: get_heap_id_def)
  from 7[OF g[symmetric]] n g show ?case
    by (auto simp: heap_store_def split: prod.splits)
next
  case (8 hs oid xs st)
  obtain hid st1 where g: "get_heap_id st = (hid, st1)" by (cases "get_heap_id st")
  then have n: "next_heap_id st \<le> next_heap_id st1" "capturer_value st1 = capturer_value st"
    "execution_steps st1 = execution_steps st" "stdout_is_capturer st1 = stdout_is_capturer st"
    by (auto simp: get_heap_id_def)
  from 8[OF g[symmetric]] n g show ?case
    by (auto simp: heap_store_def split: prod.splits)
next
  case (13 hs x xs st)
  obtain d st1 where p: "process_value hs x st = (d, st1)" by (cases "process_value hs x st")
  from 13(1) 13(2)[OF p[symmetric]] p show ?case
    by (auto split: prod.splits)
qed (auto simp: get_heap_id_def heap_store_def Let_def split: prod.splits)

section \<open>What capture changes\<close>

lemma capture_vars_frame:
  "capturer_value (snd (capture_vars hs shown items vars st)) = capturer_value st
   \<and> execution_steps (snd (capture_vars hs shown items vars st)) = execution_steps st
   \<and> stdout_is_capturer (snd (capture_vars hs shown items vars st)) = stdout_is_capturer st
   \<and> next_heap_id st \<le> next_heap_id (snd (capture_vars hs shown items vars st))"
proof (induction items arbitrary: vars st)
  case Nil
  then show ?case by simp
next
  case (Cons nv items)
  obtain n v where nv: "nv = (n, v)" by (cases nv)
  obtain d st1 where p: "process_value hs v st = (d, st1)" by (cases "process_value hs v st")
  from process_value_frame(1)[of hs v st] p
  have f: "capturer_value st1 = capturer_value st" "execution_steps st1 = execution_steps st"
    "stdout_is_capturer st1 = stdout_is_capturer st" "next_heap_id st \<le> next_heap_id st1"
    by simp_all
  show ?case
  proof (cases "shown n")
    case True
    with nv p f Cons[of "dict_set vars n d" st1] show ?thesis by simp
  next
    case False
    with nv Cons[of vars st] show ?thesis by simp
  qed
qed

lemma capture_frame_state:
  "capturer_value (snd (capture_frame hs fr st)) = capturer_value st
   \<and> execution_steps (snd (capture_frame hs fr st)) = execution_steps st
   \<and> stdout_is_capturer (snd (capture_frame hs fr st)) = stdout_is_capturer st
   \<and> next_heap_id st \<le> next_heap_id (snd (capture_frame hs fr st))"
  using capture_vars_frame[of hs global_var_shown "f_globals fr" "[]" st]
        capture_vars_frame[of hs local_var_shown "f_locals fr" "[]" st]
  by (cases "co_name fr = ''<module>''") (auto simp: capture_frame_def split: prod.splits)

lemma capture_frame_snapshot:
  "heap (fst (capture_frame hs fr st)) = SharedHeap
   \<and> output_text (fst (capture_frame hs fr st)) = capturer_value st
   \<and> currentLine (fst (capture_frame hs fr st)) = f_lineno fr
   \<and> name (frame (fst (capture_frame hs fr st)))
       = (if co_name fr \<noteq> ''<module>'' then co_name fr else ''Global frame'')"
  by (simp add: capture_frame_def split: prod.splits)

lemma trace_execution_state:
  "capturer_value (trace_execution hs fr ev st) = capturer_value st
   \<and> stdout_is_capturer (trace_execution hs fr ev st) = stdout_is_capturer st
   \<and> next_heap_id st \<le> next_heap_id (trace_execution hs fr ev st)
   \<and> (\<exists>new. execution_steps (trace_execution hs fr ev st) = execution_steps st @ new)"
  using capture_frame_state[of hs fr st]
  by (auto simp: trace_execution_def split: prod.splits)

lemma report_state:
  "capturer_value (report hs evs st) = capturer_value st
   \<and> stdout_is_capturer (report hs evs st) = stdout_is_capturer st
   \<and> next_heap_id st \<le> next_heap_id (report hs evs st)
   \<and> (\<exists>new. execution_steps (report hs evs st) = execution_steps st @ new)"
proof (induction evs arbitrary: st)
  case Nil
  then show ?case by (simp add: report_def)
next
  case (Cons e evs)
  obtain fr ev where e: "e = (fr, ev)" by (cases e)
  have r: "report hs (e # evs) st = report hs evs (trace_execution hs fr ev st)"
    by (simp add: report_def e)
  let ?t = "trace_execution hs fr ev st"
  from trace_execution_state[of hs fr ev st] obtain n1 where
    t: "capturer_value ?t = capturer_value st" "stdout_is_capturer ?t = stdout_is_capturer st"
       "next_heap_id st \<le> next_heap_id ?t" "execution_steps ?t = execution_steps st @ n1"
    by blast
  from Cons[of ?t] obtain n2 where
    u: "capturer_value (report hs evs ?t) = capturer_value ?t"
       "stdout_is_capturer (report hs evs ?t) = stdout_is_capturer ?t"
       "next_heap_id ?t \<le> next_heap_id (report hs evs ?t)"
       "execution_steps (report hs evs ?t) = execution_steps ?t @ n2"
    by blast
  from t u show ?case unfolding r by auto
qed

lemma exec_actions_state:
  "exec_actions hs ri code st = (exc, st1) \<Longrightarrow>
   stdout_is_capturer st1 = stdout_is_capturer st
   \<and> next_heap_id st \<le> next_heap_id st1
   \<and> (\<exists>new. execution_steps st1 = execution_steps st @ new)"
proof (induction hs ri code st rule: exec_actions.induct)
  case (1 hs ri st)
  then show ?case by simp
next
  case (2 hs ri fr ev rest st)
  from 2(2) have "exec_actions hs ri rest (trace_execution hs fr ev st) = (exc, st1)" by simp
  from 2(1)[OF this] trace_execution_state[of hs fr ev st] show ?case by auto
next
  case (3 hs ri t rest st)
  from 3(2) have "exec_actions hs ri rest (stdout_write t st) = (exc, st1)" by simp
  from 3(1)[OF this] show ?case by (auto simp: stdout_write_def split: if_splits)
next
  case (4 hs ri n rest st)
  then show ?case by (cases "custom_import ri n") auto
next
  case (5 hs ri e rest st)
  then show ?case by simp
qed

lemma create_error_state_steps:
  "\<exists>mid. execution_steps (create_error_state hs tr et msg st)
          = execution_steps st @ mid @ [error_state (et @ '': '' @ msg)]"
proof -
  let ?fm = "et @ '': '' @ msg"
  let ?s1 = "report hs (before_print tr) st"
  let ?s2 = "stdout_write ?fm ?s1"
  let ?s3 = "report hs (between_writes tr) ?s2"
  let ?s4 = "stdout_write [CHR 0x0A] ?s3"
  let ?s5 = "report hs (after_print tr) ?s4"
  from report_state[of hs "before_print tr" st] obtain n1 where
    a: "execution_steps ?s1 = execution_steps st @ n1" by blast
  have b: "execution_steps ?s2 = execution_steps ?s1" by (simp add: stdout_write_def)
  from report_state[of hs "between_writes tr" ?s2] obtain n2 where
    c: "execution_steps ?s3 = execution_steps ?s2 @ n2" by blast
  have d: "execution_steps ?s4 = execution_steps ?s3" by (simp add: stdout_write_def)
  from report_state[of hs "after_print tr" ?s4] obtain n3 where
    e: "execution_steps ?s5 = execution_steps ?s4 @ n3" by blast
  have "execution_steps (create_error_state hs tr et msg st)
        = execution_steps ?s5 @ [error_state ?fm]"
    by (simp add: create_error_state_def Let_def)
  with a b c d e have "execution_steps (create_error_state hs tr et msg st)
        = execution_steps st @ (n1 @ n2 @ n3) @ [error_state ?fm]" by simp
  then show ?thesis by blast
qed

lemma for_each_step_fst:
  "fst (for_each_step g f steps sh) = map (\<lambda>s. fst (on_step_heap f (g s) [])) steps"
proof (induction steps arbitrary: sh)
  case Nil
  then show ?case by simp
next
  case (Cons s steps)
  have i: "\<And>a b. fst (on_step_heap f (g s) a) = fst (on_step_heap f (g s) b)"
    by (simp add: on_step_heap_def split: heap_ref.splits)
  show ?case using Cons i[of sh "[]"] by (simp split: prod.splits) (metis fst_conv)
qed

lemma for_each_step_length: "length (fst (for_each_step g f steps sh)) = length steps"
  by (simp add: for_each_step_fst)




text \<open>
  C8: a Counter instance is a \<open>dict\<close>, and \<open>isinstance(val, dict)\<close> is tested before the
  class name \<open>Counter\<close>: the two instances \<open>c\<close> and \<open>d\<close> get the fresh ids \<open>id5\<close> and \<open>id6\<close>, but
  their entries are plain \<open>dict\<close> entries without an annotation, also after the Counter
  enhancement of the post-processing (which annotates only the class).
\<close>

theorem counter_materialized_as_dict:
  "variables (frame (last (returned counter_run)))
     = [(''Counter'', Reference ''id4''), (''c'', Reference ''id5''), (''d'', Reference ''id6'')]
   \<and> map_of (heap (last (returned counter_run))) ''id5''
       = Some \<lparr>body = DictBody [(''1'', ''2''), (''2'', ''1'')], annotation = None\<rparr>
   \<and> map_of (heap (last (returned counter_run))) ''id6''
       = Some \<lparr>body = DictBody [(''1'', ''2''), (''2'', ''1'')], annotation = None\<rparr>"
  by code_simp

section \<open>Duplicate lines\<close>

text \<open>
  C5: the duplicate test of \<open>trace_execution\<close> also asks for
  \<open>frame.f_code.co_name == '__main__'\<close>, and the code name of the top-level frame is
  \<open><module>\<close>: the second report of line 2 from the top-level frame is captured again.
\<close>

theorem loop_line_captured_twice:
  "map currentLine (returned loop_run) = [1, 2, 2]
   \<and> map name (map frame (returned loop_run)) = [''Global frame'', ''Global frame'', ''Global frame'']"
  by code_simp

section \<open>Post-processing\<close>

lemma strip_steps_facts:
  "execution_steps (strip_steps st)
     = map (\<lambda>s. fst (on_step_heap strip_heap (strip_step_variables s) [])) (execution_steps st)"
  "capturer_value (strip_steps st) = capturer_value st"
  using for_each_step_fst[of strip_step_variables strip_heap "execution_steps st" "visualizer_heap st"]
  by (auto simp: strip_steps_def split: prod.splits)

lemma capture_final_state_facts:
  "capturer_value (capture_final_state hs fr st) = capturer_value st"
  "execution_steps (capture_final_state hs fr st) \<noteq> []"
  "execution_steps st \<noteq> [] \<Longrightarrow> execution_steps (capture_final_state hs fr st) = execution_steps st"
  "execution_steps st = [] \<Longrightarrow> length (execution_steps (capture_final_state hs fr st)) = 1"
  using capture_frame_state[of hs fr st]
  by (auto simp: capture_final_state_def split: prod.splits)

lemma annotate_counters_facts:
  "execution_steps (annotate_counters hsd st)
     = map (\<lambda>s. fst (on_step_heap (annotate_heap hsd) s [])) (execution_steps st)"
  "capturer_value (annotate_counters hsd st) = capturer_value st"
  using for_each_step_fst[of id "annotate_heap hsd" "execution_steps st" "visualizer_heap st"]
  by (auto simp: annotate_counters_def split: prod.splits)

lemma backfill_output_facts:
  "execution_steps (backfill_output st)
     = map (\<lambda>step. step\<lparr>output_text := capturer_value st\<rparr>) (execution_steps st)"
  "capturer_value (backfill_output st) = capturer_value st"
  by (simp_all add: backfill_output_def get_output_def)

lemma duplicate_single_step_facts:
  "capturer_value (duplicate_single_step st) = capturer_value st"
  "set (execution_steps (duplicate_single_step st)) = set (execution_steps st)"
  "execution_steps st \<noteq> [] \<Longrightarrow> 2 \<le> length (execution_steps (duplicate_single_step st))"
  "execution_steps st \<noteq> [] \<Longrightarrow>
     last (execution_steps (duplicate_single_step st)) = last (execution_steps st)"
  "length (execution_steps st) \<le> length (execution_steps (duplicate_single_step st))"
  "length (execution_steps st) = 1 \<Longrightarrow>
     \<exists>s. execution_steps (duplicate_single_step st) = [s, s]"
proof -
  show "capturer_value (duplicate_single_step st) = capturer_value st"
    by (simp add: duplicate_single_step_def)
  show "set (execution_steps (duplicate_single_step st)) = set (execution_steps st)"
    by (cases "execution_steps st") (auto simp: duplicate_single_step_def)
  show "execution_steps st \<noteq> [] \<Longrightarrow> 2 \<le> length (execution_steps (duplicate_single_step st))"
    by (cases "execution_steps st"; cases "tl (execution_steps st)")
       (auto simp: duplicate_single_step_def)
  show "execution_steps st \<noteq> [] \<Longrightarrow>
     last (execution_steps (duplicate_single_step st)) = last (execution_steps st)"
    by (cases "execution_steps st") (auto simp: duplicate_single_step_def)
  show "length (execution_steps st) \<le> length (execution_steps (duplicate_single_step st))"
    by (simp add: duplicate_single_step_def)
  show "length (execution_steps st) = 1 \<Longrightarrow>
     \<exists>s. execution_steps (duplicate_single_step st) = [s, s]"
    by (cases "execution_steps st") (auto simp: duplicate_single_step_def)
qed

lemma post_process_capturer: "capturer_value (post_process hs hsd fr st) = capturer_value st"
  by (simp add: post_process_def duplicate_single_step_facts(1) backfill_output_facts(2)
      annotate_counters_facts(2) capture_final_state_facts(1) strip_steps_facts(2))

lemma post_process_length: "2 \<le> length (execution_steps (post_process hs hsd fr st))"
  unfolding post_process_def
  by (rule duplicate_single_step_facts(3))
     (simp add: backfill_output_facts(1) annotate_counters_facts(1) capture_final_state_facts(2))

lemma post_process_length_ge:
  "length (execution_steps st) \<le> length (execution_steps (post_process hs hsd fr st))"
proof (cases "execution_steps st = []")
  case True
  then show ?thesis by simp
next
  case False
  then have "execution_steps (strip_steps st) \<noteq> []" by (simp add: strip_steps_facts(1))
  then have "length (execution_steps (backfill_output (annotate_counters hsd
               (capture_final_state hs fr (strip_steps st))))) = length (execution_steps st)"
    by (simp add: backfill_output_facts(1) annotate_counters_facts(1)
        capture_final_state_facts(3) strip_steps_facts(1))
  then show ?thesis unfolding post_process_def
    using duplicate_single_step_facts(5)[of "backfill_output (annotate_counters hsd
               (capture_final_state hs fr (strip_steps st)))"] by simp
qed

lemma post_process_singleton:
  assumes "length (execution_steps st) \<le> 1"
  shows "\<exists>s. execution_steps (post_process hs hsd fr st) = [s, s]"
proof -
  have "length (execution_steps (capture_final_state hs fr (strip_steps st))) = 1"
  proof (cases "execution_steps st = []")
    case True
    then have "execution_steps (strip_steps st) = []" by (simp add: strip_steps_facts(1))
    then show ?thesis by (rule capture_final_state_facts(4))
  next
    case False
    then have n: "execution_steps (strip_steps st) \<noteq> []" by (simp add: strip_steps_facts(1))
    from False assms have "length (execution_steps st) = 1"
      by (cases "execution_steps st") simp_all
    then show ?thesis by (simp add: capture_final_state_facts(3)[OF n] strip_steps_facts(1))
  qed
  then have "length (execution_steps (backfill_output (annotate_counters hsd
               (capture_final_state hs fr (strip_steps st))))) = 1"
    by (simp add: backfill_output_facts(1) annotate_counters_facts(1))
  then show ?thesis unfolding post_process_def by (rule duplicate_single_step_facts(6))
qed

lemma post_process_outputs:
  assumes "s \<in> set (execution_steps (post_process hs hsd fr st))"
  shows "output_text s = capturer_value st"
proof -
  from assms have "s \<in> set (execution_steps (backfill_output (annotate_counters hsd
               (capture_final_state hs fr (strip_steps st)))))"
    by (simp add: post_process_def duplicate_single_step_facts(2))
  then show ?thesis
    by (auto simp: backfill_output_facts(1) annotate_counters_facts(2)
        capture_final_state_facts(1) strip_steps_facts(2))
qed

lemma error_state_fixed:
  "fst (on_step_heap strip_heap (strip_step_variables (error_state m)) []) = error_state m"
  "fst (on_step_heap (annotate_heap hsd) (error_state m) []) = error_state m"
  by (simp_all add: on_step_heap_def strip_step_variables_def error_state_def strip_heap_def
      annotate_heap_def)

lemma post_process_last_error:
  assumes "execution_steps st = pre @ [error_state m]"
  shows "last (execution_steps (post_process hs hsd fr st))
         = (error_state m)\<lparr>output_text := capturer_value st\<rparr>"
proof -
  from assms have n: "execution_steps (strip_steps st) \<noteq> []" by (simp add: strip_steps_facts(1))
  have "execution_steps (backfill_output (annotate_counters hsd
               (capture_final_state hs fr (strip_steps st))))
        = map (\<lambda>step. step\<lparr>output_text := capturer_value st\<rparr>)
            (map (\<lambda>s. fst (on_step_heap (annotate_heap hsd) s []))
               (map (\<lambda>s. fst (on_step_heap strip_heap (strip_step_variables s) []))
                  (execution_steps st)))"
    by (simp add: backfill_output_facts annotate_counters_facts capture_final_state_facts(1)
        capture_final_state_facts(3)[OF n] strip_steps_facts)
  then have e: "execution_steps (backfill_output (annotate_counters hsd
               (capture_final_state hs fr (strip_steps st))))
        = map (\<lambda>step. step\<lparr>output_text := capturer_value st\<rparr>)
            (map (\<lambda>s. fst (on_step_heap (annotate_heap hsd) s []))
               (map (\<lambda>s. fst (on_step_heap strip_heap (strip_step_variables s) [])) pre))
          @ [(error_state m)\<lparr>output_text := capturer_value st\<rparr>]"
    by (simp add: assms error_state_fixed)
  then have "execution_steps (backfill_output (annotate_counters hsd
               (capture_final_state hs fr (strip_steps st)))) \<noteq> []" by simp
  from duplicate_single_step_facts(4)[OF this] e show ?thesis by (simp add: post_process_def)
qed

lemma outer_handler_returns:
  "outer_handler hs tr e st = (Inr steps, st') \<Longrightarrow> steps = []"
  by (cases e) (auto simp: outer_handler_def split: if_splits)

lemma run_with_trace_result:
  assumes "run_with_trace hs hsd ri fr tr code st = (Inr steps, st')"
  shows "\<exists>exc st1.
           exec_actions hs ri code
             (st\<lparr>visualizer_heap := [], next_heap_id := 1, capturer_value := [],
                 execution_steps := []\<rparr>) = (exc, st1)
         \<and> ((\<exists>st2. handle_exception hs tr exc st1 = Inr st2
                \<and> steps = map (to_js (visualizer_heap (post_process hs hsd fr st2)))
                            (execution_steps (post_process hs hsd fr st2))
                \<and> st' = (post_process hs hsd fr st2)\<lparr>stdout_is_capturer := False\<rparr>)
            \<or> (\<exists>e st2. handle_exception hs tr exc st1 = Inl (e, st2)
                  \<and> exc \<noteq> None \<and> steps = []))"
proof -
  obtain exc st1 where
    e: "exec_actions hs ri code
             (st\<lparr>visualizer_heap := [], next_heap_id := 1, capturer_value := [],
                 execution_steps := []\<rparr>) = (exc, st1)"
    by (cases "exec_actions hs ri code
             (st\<lparr>visualizer_heap := [], next_heap_id := 1, capturer_value := [],
                 execution_steps := []\<rparr>)")
  show ?thesis
  proof (cases "handle_exception hs tr exc st1")
    case (Inl p)
    obtain e' st2 where p: "p = (e', st2)" by (cases p)
    from Inl p have n: "exc \<noteq> None" by (cases exc) auto
    from assms e Inl p have "fst (outer_handler hs tr e' st2) = Inr steps"
      by (simp add: run_with_trace_def Let_def split: prod.splits)
    then have "steps = []"
      using outer_handler_returns[of hs tr e' st2 steps "snd (outer_handler hs tr e' st2)"]
      by (metis prod.collapse)
    with e Inl p n show ?thesis by blast
  next
    case (Inr st2)
    with assms e show ?thesis by (auto simp: run_with_trace_def Let_def)
  qed
qed

lemma to_js_output: "output_text (to_js h s) = output_text s"
  by (simp add: to_js_def)

lemma processExecutionSteps_steps:
  "executionSteps (processExecutionSteps steps (setExecutionSteps [] store))
   = formatListElements (filter relevant_step steps)"
  by (auto simp: processExecutionSteps_def Let_def setExecutionSteps_def setExecutionState_def
      formatListElements_def)

lemma formatListElements_output:
  "s \<in> set (formatListElements steps) \<Longrightarrow> \<exists>s0 \<in> set steps. output_text s = output_text s0"
  by (auto simp: formatListElements_def)

lemma returned_run:
  assumes "case fst r of Inr steps \<Rightarrow> True | Inl e \<Rightarrow> False"
  shows "r = (Inr (returned r), snd r)"
  using assms by (cases r; cases "fst r") (auto simp: returned_def)

text \<open>
  What \<open>run_with_trace\<close> returns is the empty list of the outer \<open>except\<close> clause or a
  list of at least two snapshots; the client-side filter that follows only removes
  snapshots.
\<close>

lemma run_with_trace_length:
  assumes "run_with_trace hs hsd ri fr tr code st = (Inr steps, st')"
  shows "steps = [] \<or> 2 \<le> length steps"
proof -
  from run_with_trace_result[OF assms] obtain st2 where
    "steps = map (to_js (visualizer_heap (post_process hs hsd fr st2)))
                 (execution_steps (post_process hs hsd fr st2)) \<or> steps = []"
    by blast
  then show ?thesis using post_process_length[of hs hsd fr st2] by auto
qed

lemma processExecutionSteps_length:
  "length (executionSteps (processExecutionSteps steps (setExecutionSteps [] store)))
   \<le> length steps"
  by (simp add: processExecutionSteps_steps formatListElements_def)

text \<open>
  C3: the trace that the client holds after a run has at least two snapshots, a single
  captured snapshot being duplicated.  \<open>run_with_trace\<close> duplicates a single snapshot
  before it returns, and the client filters what it returned afterwards: for \<open>print("hi")\<close>
  the call returns five snapshots, four of them from the frames of
  \<open>OutputCapturer.write\<close>; the client drops those four and stores one snapshot.
\<close>

theorem print_leaves_one_step:
  "map name (map frame (returned print_hi_run))
     = [''Global frame'', ''write'', ''write'', ''write'', ''write'']
   \<and> length (executionSteps (processExecutionSteps (returned print_hi_run) initial_store)) = 1"
  by code_simp

lemma exec_actions_output:
  "exec_actions hs ri code st = (None, st1) \<Longrightarrow> stdout_is_capturer st \<Longrightarrow>
   capturer_value st1 = capturer_value st @ concat (map written code)"
proof (induction hs ri code st rule: exec_actions.induct)
  case (1 hs ri st)
  then show ?case by simp
next
  case (2 hs ri fr ev rest st)
  from 2(2) have e: "exec_actions hs ri rest (trace_execution hs fr ev st) = (None, st1)" by simp
  from 2(1)[OF e] 2(3) trace_execution_state[of hs fr ev st] show ?case by simp
next
  case (3 hs ri t rest st)
  from 3(2) have e: "exec_actions hs ri rest (stdout_write t st) = (None, st1)" by simp
  from 3(1)[OF e] 3(3) show ?case by (simp add: stdout_write_def)
next
  case (4 hs ri n rest st)
  then show ?case by (cases "custom_import ri n") auto
next
  case (5 hs ri e rest st)
  then show ?case by simp
qed

text \<open>
  C4: every snapshot that \<open>run_with_trace\<close> returns, and every snapshot the client then
  stores, carries the output captured at the end of the run; while \<open>sys.stdout\<close> is the
  capturer and the program ends without an exception, that is all the text it wrote.
\<close>

theorem final_output_on_every_step:
  assumes "run_with_trace hs hsd ri fr tr code st = (Inr steps, st')"
  shows "(\<forall>s \<in> set steps. output_text s = get_output st')
       \<and> (\<forall>s \<in> set (executionSteps (processExecutionSteps steps (setExecutionSteps [] store))).
             output_text s = get_output st')
       \<and> (stdout_is_capturer st
            \<and> fst (exec_actions hs ri code
                     (st\<lparr>visualizer_heap := [], next_heap_id := 1, capturer_value := [],
                         execution_steps := []\<rparr>)) = None
            \<longrightarrow> get_output st' = concat (map written code))"
proof -
  from run_with_trace_result[OF assms] obtain exc st1 where
    e: "exec_actions hs ri code
             (st\<lparr>visualizer_heap := [], next_heap_id := 1, capturer_value := [],
                 execution_steps := []\<rparr>) = (exc, st1)" and
    d: "(\<exists>st2. handle_exception hs tr exc st1 = Inr st2
                \<and> steps = map (to_js (visualizer_heap (post_process hs hsd fr st2)))
                            (execution_steps (post_process hs hsd fr st2))
                \<and> st' = (post_process hs hsd fr st2)\<lparr>stdout_is_capturer := False\<rparr>)
            \<or> (\<exists>e st2. handle_exception hs tr exc st1 = Inl (e, st2)
                  \<and> exc \<noteq> None \<and> steps = [])"
    by blast
  from d show ?thesis
  proof
  assume "\<exists>e st2. handle_exception hs tr exc st1 = Inl (e, st2) \<and> exc \<noteq> None \<and> steps = []"
  then have n: "exc \<noteq> None" and s: "steps = []" by blast+
  have b: "executionSteps (processExecutionSteps [] (setExecutionSteps [] store)) = []"
    by (simp add: processExecutionSteps_steps formatListElements_def)
  from e n have "fst (exec_actions hs ri code
             (st\<lparr>visualizer_heap := [], next_heap_id := 1, capturer_value := [],
                 execution_steps := []\<rparr>)) \<noteq> None" by simp
  with s b show ?thesis by auto
  next
  assume "\<exists>st2. handle_exception hs tr exc st1 = Inr st2
                \<and> steps = map (to_js (visualizer_heap (post_process hs hsd fr st2)))
                            (execution_steps (post_process hs hsd fr st2))
                \<and> st' = (post_process hs hsd fr st2)\<lparr>stdout_is_capturer := False\<rparr>"
  then obtain st2 where
    h: "handle_exception hs tr exc st1 = Inr st2" and
    s: "steps = map (to_js (visualizer_heap (post_process hs hsd fr st2)))
                      (execution_steps (post_process hs hsd fr st2))" and
    t: "st' = (post_process hs hsd fr st2)\<lparr>stdout_is_capturer := False\<rparr>"
    by blast
  have g: "get_output st' = capturer_value st2"
    by (simp add: t get_output_def post_process_capturer)
  have a: "\<forall>s \<in> set steps. output_text s = get_output st'"
    unfolding s g by (auto simp: to_js_output dest: post_process_outputs)
  have b: "\<forall>s \<in> set (executionSteps (processExecutionSteps steps (setExecutionSteps [] store))).
             output_text s = get_output st'"
    unfolding processExecutionSteps_steps using a
    by (auto dest!: formatListElements_output)
  have c: "stdout_is_capturer st
            \<and> fst (exec_actions hs ri code
                     (st\<lparr>visualizer_heap := [], next_heap_id := 1, capturer_value := [],
                         execution_steps := []\<rparr>)) = None
            \<longrightarrow> get_output st' = concat (map written code)"
  proof
    assume p: "stdout_is_capturer st
            \<and> fst (exec_actions hs ri code
                     (st\<lparr>visualizer_heap := [], next_heap_id := 1, capturer_value := [],
                         execution_steps := []\<rparr>)) = None"
    with e have n: "exc = None" by simp
    with h have "st2 = st1" by simp
    moreover from exec_actions_output[OF e[unfolded n]] p
    have "capturer_value st1 = concat (map written code)" by simp
    ultimately show "get_output st' = concat (map written code)" using g by simp
  qed
  from a b c show ?thesis by blast
  qed
qed

theorem final_output_on_every_step_witness:
  "map output_text (returned sum_run) = replicate 7 (''6'' @ [CHR 0x0A])
   \<and> map output_text
        (executionSteps
           (processExecutionSteps (returned sum_run) (setExecutionSteps [] initial_store)))
       = replicate 3 (''6'' @ [CHR 0x0A])
   \<and> concat (map written sum_code) = ''6'' @ [CHR 0x0A]"
proof -
  have "case fst sum_run of Inr steps \<Rightarrow> True | Inl e \<Rightarrow> False" by code_simp
  from returned_run[OF this]
  have r: "run_with_trace plain_str plain_str_dict host_import own_frame0 no_trace sum_code
             initial_pystate
           = (Inr (returned sum_run), snd sum_run)"
    by (simp add: sum_run_def)
  have g: "get_output (snd sum_run) = ''6'' @ [CHR 0x0A]" by code_simp
  have c: "stdout_is_capturer initial_pystate" by (simp add: initial_pystate_def)
  have n: "fst (exec_actions plain_str host_import sum_code
                 (initial_pystate\<lparr>visualizer_heap := [], next_heap_id := 1, capturer_value := [],
                         execution_steps := []\<rparr>)) = None"
    by code_simp
  have l: "length (returned sum_run) = 7" by code_simp
  have m: "length (executionSteps
             (processExecutionSteps (returned sum_run) (setExecutionSteps [] initial_store))) = 3"
    by code_simp
  let ?stored = "executionSteps
             (processExecutionSteps (returned sum_run) (setExecutionSteps [] initial_store))"
  from final_output_on_every_step[OF r, of initial_store] g c n
  have a: "\<forall>s \<in> set (returned sum_run). output_text s = ''6'' @ [CHR 0x0A]"
    and b: "\<forall>s \<in> set ?stored. output_text s = ''6'' @ [CHR 0x0A]"
    and w: "concat (map written sum_code) = ''6'' @ [CHR 0x0A]"
    by simp_all
  from a have "map output_text (returned sum_run)
               = replicate (length (returned sum_run)) (''6'' @ [CHR 0x0A])"
    by (simp add: map_replicate_const[symmetric] del: map_replicate_const)
  moreover from b have "map output_text ?stored = replicate (length ?stored) (''6'' @ [CHR 0x0A])"
    by (simp add: map_replicate_const[symmetric] del: map_replicate_const)
  ultimately show ?thesis using l m w by simp
qed

section \<open>The error snapshot\<close>

lemma create_error_state_output:
  assumes "stdout_is_capturer st"
  shows "capturer_value (create_error_state hs tr et msg st)
         = capturer_value st @ et @ '': '' @ msg @ [CHR 0x0A]"
proof -
  let ?fm = "et @ '': '' @ msg"
  let ?s1 = "report hs (before_print tr) st"
  let ?s2 = "stdout_write ?fm ?s1"
  let ?s3 = "report hs (between_writes tr) ?s2"
  let ?s4 = "stdout_write [CHR 0x0A] ?s3"
  let ?s5 = "report hs (after_print tr) ?s4"
  from report_state[of hs "before_print tr" st] assms
  have a: "capturer_value ?s1 = capturer_value st" "stdout_is_capturer ?s1" by simp_all
  then have b: "capturer_value ?s2 = capturer_value st @ ?fm" "stdout_is_capturer ?s2"
    by (simp_all add: stdout_write_def)
  from report_state[of hs "between_writes tr" ?s2] b
  have c: "capturer_value ?s3 = capturer_value st @ ?fm" "stdout_is_capturer ?s3" by simp_all
  then have d: "capturer_value ?s4 = capturer_value st @ ?fm @ [CHR 0x0A]" "stdout_is_capturer ?s4"
    by (simp_all add: stdout_write_def)
  from report_state[of hs "after_print tr" ?s4] d
  have e: "capturer_value ?s5 = capturer_value st @ ?fm @ [CHR 0x0A]" by simp
  have "capturer_value (create_error_state hs tr et msg st) = capturer_value ?s5"
    by (simp add: create_error_state_def Let_def)
  with e show ?thesis by simp
qed

lemma report_nil: "report hs [] st = st"
  by (simp add: report_def)

lemma print_error_output:
  assumes "stdout_is_capturer st"
  shows "capturer_value (print_error hs tr msg st)
         = capturer_value st @ ''Error: '' @ msg @ [CHR 0x0A]"
proof -
  let ?s0 = "report hs (outer_during_str tr) st"
  let ?s1 = "report hs (outer_before_print tr) ?s0"
  let ?s2 = "stdout_write (''Error: '' @ msg) ?s1"
  let ?s3 = "report hs (outer_between_writes tr) ?s2"
  let ?s4 = "stdout_write [CHR 0x0A] ?s3"
  let ?s5 = "report hs (outer_after_print tr) ?s4"
  from report_state[of hs "outer_during_str tr" st] assms
  have z: "capturer_value ?s0 = capturer_value st" "stdout_is_capturer ?s0" by simp_all
  from report_state[of hs "outer_before_print tr" ?s0] z
  have a: "capturer_value ?s1 = capturer_value st" "stdout_is_capturer ?s1" by simp_all
  then have b: "capturer_value ?s2 = capturer_value st @ ''Error: '' @ msg"
    "stdout_is_capturer ?s2"
    by (simp_all add: stdout_write_def)
  from report_state[of hs "outer_between_writes tr" ?s2] b
  have c: "capturer_value ?s3 = capturer_value st @ ''Error: '' @ msg" "stdout_is_capturer ?s3"
    by simp_all
  then have d: "capturer_value ?s4 = capturer_value st @ ''Error: '' @ msg @ [CHR 0x0A]"
    "stdout_is_capturer ?s4"
    by (simp_all add: stdout_write_def)
  from report_state[of hs "outer_after_print tr" ?s4] d
  have e: "capturer_value ?s5 = capturer_value st @ ''Error: '' @ msg @ [CHR 0x0A]" by simp
  have "capturer_value (print_error hs tr msg st) = capturer_value ?s5"
    by (simp add: print_error_def Let_def)
  with e show ?thesis by simp
qed

text \<open>
  An exception on which \<open>str(e)\<close> raises an \<open>Exception\<close> reaches the outer \<open>except\<close> clause:
  no error snapshot is made, the message of the second exception is printed, and
  \<open>run_with_trace\<close> returns the empty list.
\<close>

lemma run_with_trace_str_raises:
  assumes "exec_actions hs ri code
             (st\<lparr>visualizer_heap := [], next_heap_id := 1, capturer_value := [],
                 execution_steps := []\<rparr>) = (Some (PyExcNoStr c (PyExc c' msg')), st1)"
      and "c \<noteq> BaseOnlyCls" and "c' \<noteq> BaseOnlyCls"
  shows "\<exists>st'. run_with_trace hs hsd ri fr tr code st = (Inr [], st')
              \<and> (stdout_is_capturer st1 \<longrightarrow>
                    get_output st' = capturer_value st1 @ ''Error: '' @ msg' @ [CHR 0x0A])"
proof -
  let ?s = "report hs (during_str tr) st1"
  have h: "handle_exception hs tr (Some (PyExcNoStr c (PyExc c' msg'))) st1
           = Inl (PyExc c' msg', ?s)"
    using assms(2) by (cases c) simp_all
  have o: "outer_handler hs tr (PyExc c' msg') ?s = (Inr [], print_error hs tr msg' ?s)"
    using assms(3) by (simp add: outer_handler_def)
  have r: "run_with_trace hs hsd ri fr tr code st
           = (Inr [], (print_error hs tr msg' ?s)\<lparr>stdout_is_capturer := False\<rparr>)"
    by (simp only: run_with_trace_def Let_def assms(1) prod.case h sum.case o)
  have g: "stdout_is_capturer st1 \<longrightarrow>
           capturer_value (print_error hs tr msg' ?s)
           = capturer_value st1 @ ''Error: '' @ msg' @ [CHR 0x0A]"
  proof
    assume c: "stdout_is_capturer st1"
    from report_state[of hs "during_str tr" st1] c
    have "capturer_value ?s = capturer_value st1" "stdout_is_capturer ?s" by simp_all
    with print_error_output[of ?s hs tr msg'] show "capturer_value (print_error hs tr msg' ?s)
           = capturer_value st1 @ ''Error: '' @ msg' @ [CHR 0x0A]" by simp
  qed
  from r g show ?thesis by (simp add: get_output_def)
qed

text \<open>
  C6, as stated: the error snapshot is the single snapshot of a run whose program
  raises, in place of the normal capture.  For \<open>x = 1\<close> followed by
  \<open>raise ValueError("boom")\<close> the call returns fifteen snapshots: those of lines 1 and 2 as
  captured; twelve of the frames of \<open>create_error_state\<close> and \<open>OutputCapturer.write\<close>, which
  run while the trace function is still installed; and the error snapshot last, its
  output ending with the line end that \<open>print\<close> wrote.
\<close>

theorem error_snapshot_follows_captured_steps:
  "map currentLine (returned boom_run) = [1, 2, 21, 22, 7, 8, 7, 8, 24, 25, 26, 27, 23, 29, 1]
   \<and> map name (map frame (returned boom_run))
       = [''Global frame'', ''Global frame'', ''create_error_state'', ''create_error_state'',
          ''write'', ''write'', ''write'', ''write'', ''create_error_state'',
          ''create_error_state'', ''create_error_state'', ''create_error_state'',
          ''create_error_state'', ''create_error_state'', ''Global frame'']
   \<and> map variables (map frame (take 2 (returned boom_run))) = [[], [(''x'', Primitive ''1'')]]
   \<and> last (returned boom_run)
       = \<lparr>frame = \<lparr>name = ''Global frame'', variables = []\<rparr>, heap = [],
          output_text = ''Error: boom'' @ [CHR 0x0A], currentLine = 1\<rparr>"
  by code_simp

text \<open>
  C6, amended: when the program raises an \<open>Exception\<close> whose \<open>str(e)\<close> returns a message,
  the handler appends one snapshot with frame name \<open>Global frame\<close>, no variables, an
  empty heap of its own, line 1 and output \<open><kind>: <message>\<close>, where the kind is
  \<open>KeyError\<close> for a \<open>KeyError\<close> and \<open>Error\<close> for an \<open>ImportError\<close> and everything else.  It
  comes after the snapshots captured before the exception, which stay, and after those
  of the frames reported during the handler.  \<open>run_with_trace\<close> then returns normally,
  with that snapshot last and its output, like every snapshot's, replaced by the final
  output.
\<close>

theorem error_snapshot_appended:
  assumes "exec_actions hs ri code
             (st\<lparr>visualizer_heap := [], next_heap_id := 1, capturer_value := [],
                 execution_steps := []\<rparr>) = (Some (PyExc c msg), st1)"
      and "c \<noteq> BaseOnlyCls"
  shows "\<exists>st2 mid steps st'.
           handle_exception hs tr (Some (PyExc c msg)) st1 = Inr st2
         \<and> execution_steps st2
             = execution_steps st1 @ mid
               @ [\<lparr>frame = \<lparr>name = ''Global frame'', variables = []\<rparr>,
                   heap = OwnHeap [],
                   output_text = (if c = KeyErrorCls then ''KeyError'' else ''Error'') @ '': '' @ msg,
                   currentLine = 1\<rparr>]
         \<and> run_with_trace hs hsd ri fr tr code st = (Inr steps, st')
         \<and> length (execution_steps st1) + 1 \<le> length steps
         \<and> last steps
             = \<lparr>frame = \<lparr>name = ''Global frame'', variables = []\<rparr>, heap = [],
                output_text = get_output st', currentLine = 1\<rparr>"
proof -
  let ?et = "if c = KeyErrorCls then ''KeyError'' else ''Error''"
  let ?s = "report hs (during_str tr) st1"
  let ?st2 = "create_error_state hs tr ?et msg ?s"
  have h: "handle_exception hs tr (Some (PyExc c msg)) st1 = Inr ?st2"
    using assms(2) by (cases c) simp_all
  from report_state[of hs "during_str tr" st1] obtain n0 where
    n0: "execution_steps ?s = execution_steps st1 @ n0" by blast
  from create_error_state_steps[of hs tr ?et msg ?s] obtain n1 where
    "execution_steps ?st2 = execution_steps ?s @ n1 @ [error_state (?et @ '': '' @ msg)]"
    by blast
  with n0 have
    m: "execution_steps ?st2
        = execution_steps st1 @ (n0 @ n1) @ [error_state (?et @ '': '' @ msg)]"
    by simp
  let ?mid = "n0 @ n1"
  let ?pp = "post_process hs hsd fr ?st2"
  let ?steps = "map (to_js (visualizer_heap ?pp)) (execution_steps ?pp)"
  let ?st' = "?pp\<lparr>stdout_is_capturer := False\<rparr>"
  have r: "run_with_trace hs hsd ri fr tr code st = (Inr ?steps, ?st')"
    by (simp only: run_with_trace_def Let_def assms(1) prod.case h sum.case)
  have n: "execution_steps ?pp \<noteq> []" using post_process_length[of hs hsd fr ?st2] by auto
  have l: "length (execution_steps st1) + 1 \<le> length ?steps"
    using post_process_length_ge[of ?st2 hs hsd fr] m by simp
  from m have m': "execution_steps ?st2
                   = (execution_steps st1 @ ?mid) @ [error_state (?et @ '': '' @ msg)]"
    by simp
  have "last ?steps = to_js (visualizer_heap ?pp) (last (execution_steps ?pp))"
    using n by (simp add: last_map)
  also have "\<dots> = to_js (visualizer_heap ?pp)
                     ((error_state (?et @ '': '' @ msg))\<lparr>output_text := capturer_value ?st2\<rparr>)"
    by (simp only: post_process_last_error[OF m'])
  also have "\<dots> = \<lparr>frame = \<lparr>name = ''Global frame'', variables = []\<rparr>, heap = [],
                output_text = get_output ?st', currentLine = 1\<rparr>"
    by (simp add: to_js_def error_state_def get_output_def post_process_capturer)
  finally have la: "last ?steps = \<lparr>frame = \<lparr>name = ''Global frame'', variables = []\<rparr>, heap = [],
                output_text = get_output ?st', currentLine = 1\<rparr>" .
  from m have m2: "execution_steps ?st2
             = execution_steps st1 @ ?mid
               @ [\<lparr>frame = \<lparr>name = ''Global frame'', variables = []\<rparr>,
                   heap = OwnHeap [],
                   output_text = ?et @ '': '' @ msg,
                   currentLine = 1\<rparr>]"
    by (simp add: error_state_def)
  from h m2 r l la show ?thesis by blast
qed

text \<open>
  The program \<open>d = {}\<close>, then \<open>d['k']\<close>: two snapshots are captured before the \<open>KeyError\<close>,
  and the run returns fifteen, the error snapshot last.
\<close>

theorem error_snapshot_appended_witness:
  "fst (exec_actions plain_str host_import key_code
          (initial_pystate\<lparr>visualizer_heap := [], next_heap_id := 1, capturer_value := [],
                           execution_steps := []\<rparr>))
     = Some (PyExc KeyErrorCls key_message)
   \<and> 3 \<le> length (returned key_run)
   \<and> last (returned key_run)
       = \<lparr>frame = \<lparr>name = ''Global frame'', variables = []\<rparr>, heap = [],
          output_text = ''KeyError: '' @ key_message @ [CHR 0x0A], currentLine = 1\<rparr>
   \<and> length (returned key_run) = 15"
proof -
  let ?st0 = "initial_pystate\<lparr>visualizer_heap := [], next_heap_id := 1, capturer_value := [],
                           execution_steps := []\<rparr>"
  let ?e = "exec_actions plain_str host_import key_code ?st0"
  let ?tr = "handler_trace1 ''KeyError'' key_message"
  have f: "fst ?e = Some (PyExc KeyErrorCls key_message)" by code_simp
  then have e: "?e = (Some (PyExc KeyErrorCls key_message), snd ?e)"
    by (metis prod.collapse)
  have c: "KeyErrorCls \<noteq> BaseOnlyCls" by simp
  have n: "length (execution_steps (snd ?e)) = 2" by code_simp
  from error_snapshot_appended[where hsd = plain_str_dict and fr = own_frame0
         and tr = ?tr, OF e c]
  obtain steps st' where
    r: "run_with_trace plain_str plain_str_dict host_import own_frame0 ?tr key_code
          initial_pystate = (Inr steps, st')" and
    k: "length (execution_steps (snd ?e)) + 1 \<le> length steps" and
    l: "last steps = \<lparr>frame = \<lparr>name = ''Global frame'', variables = []\<rparr>, heap = [],
                output_text = get_output st', currentLine = 1\<rparr>"
    by blast
  from r have rr: "key_run = (Inr steps, st')" unfolding key_run_def .
  have s: "steps = returned key_run" by (simp add: rr returned_def)
  have t: "st' = snd key_run" by (simp add: rr)
  have g: "get_output (snd key_run) = ''KeyError: '' @ key_message @ [CHR 0x0A]" by code_simp
  have m: "length (returned key_run) = 15" by code_simp
  from k n s have "3 \<le> length (returned key_run)" by simp
  moreover from l g s t have "last (returned key_run)
       = \<lparr>frame = \<lparr>name = ''Global frame'', variables = []\<rparr>, heap = [],
          output_text = ''KeyError: '' @ key_message @ [CHR 0x0A], currentLine = 1\<rparr>"
    by (simp only:)
  ultimately show ?thesis using f m by (intro conjI)
qed

end
